theory Spec2Isabelle
  imports Main "HOL-Library.Sublist"
begin

section \<open>Dataset sources generated from artifact repositories\<close>

text \<open>
  A shallow embedding of \<^verbatim>\<open>src/mlflow/data/artifact_dataset_sources.py\<close>:
  \<^verbatim>\<open>register_artifact_dataset_sources\<close>, which walks the registered artifact
  repositories and registers one generated dataset source class per scheme, and
  \<^verbatim>\<open>_create_dataset_source_for_artifact_repo\<close>, which builds that class.
  Python names that start with an underscore lose it (\<open>_can_resolve\<close> is
  \<open>can_resolve\<close>), since an Isabelle name cannot start with one.
\<close>

subsection \<open>Exceptions and values\<close>

text \<open>
  The error codes of \<^verbatim>\<open>mlflow.protos.databricks_pb2\<close>: the file uses
  \<^verbatim>\<open>INVALID_PARAMETER_VALUE\<close>; \<^verbatim>\<open>INTERNAL_ERROR\<close> is the code an
  \<^verbatim>\<open>MlflowException\<close> gets when none is given.
\<close>

datatype error_code = INTERNAL_ERROR | INVALID_PARAMETER_VALUE

text \<open>
  Exceptions (subclasses of \<^verbatim>\<open>Exception\<close>) as values. An \<^verbatim>\<open>MlflowException\<close>
  carries its message and its error code, the others their message.
\<close>

datatype error =
    MlflowException string error_code
  | AttributeError string
  | ValueError string
  | PyException string

text \<open>\<^verbatim>\<open>str(e)\<close>, which is what \<^verbatim>\<open>{e}\<close> in an f-string formats.\<close>

fun error_str :: "error \<Rightarrow> string" where
  "error_str (MlflowException msg code) = msg"
| "error_str (AttributeError msg) = msg"
| "error_str (ValueError msg) = msg"
| "error_str (PyException msg) = msg"

text \<open>
  What a piece of Python can raise: an exception that is a subclass of
  \<^verbatim>\<open>Exception\<close>, or another \<^verbatim>\<open>BaseException\<close> (\<^verbatim>\<open>KeyboardInterrupt\<close>,
  \<^verbatim>\<open>SystemExit\<close>, \<^verbatim>\<open>GeneratorExit\<close>), which \<^verbatim>\<open>except Exception\<close> does not
  catch. The functions the file imports raise exceptions of the first kind; the methods
  of a value that is handed in may raise either.
\<close>

datatype raised = Exc error | BaseExc string

text \<open>The outcome of a call of an imported function, among the outcomes of Python code.\<close>

definition library_call :: "error + 'a \<Rightarrow> raised + 'a" where
  "library_call r = (case r of Inl e \<Rightarrow> Inl (Exc e) | Inr v \<Rightarrow> Inr v)"

text \<open>
  The Python values the generated class meets, as far as the file looks at them: it asks
  whether a value is \<^verbatim>\<open>None\<close>, whether it is a \<^verbatim>\<open>str\<close> or a \<^verbatim>\<open>pathlib.Path\<close>,
  and what \<^verbatim>\<open>str(value)\<close> gives.
  \<^item> \<open>PyPath p\<close> is a \<^verbatim>\<open>pathlib.Path\<close> whose string form is \<open>p\<close>.
  \<^item> \<open>PyPurePath p\<close> is a path-like object that is not a \<^verbatim>\<open>pathlib.Path\<close>, such as a
    \<^verbatim>\<open>pathlib.PurePosixPath\<close>, whose string form is \<open>p\<close>.
  \<^item> \<open>PyObj r\<close> is any other object, \<open>r\<close> being the outcome of its \<^verbatim>\<open>__str__\<close>,
    which can raise.
  \<^item> \<open>PyBadClass x r\<close> is an object whose \<^verbatim>\<open>__class__\<close> attribute raises \<open>x\<close> when
    read, as \<^verbatim>\<open>isinstance\<close> reads it for an object whose type is not the class asked
    for; \<open>r\<close> is the outcome of its \<^verbatim>\<open>__str__\<close>.
\<close>

datatype pyval =
    PyNone
  | PyStr string
  | PyPath string
  | PyPurePath string
  | PyObj "raised + string"
  | PyBadClass raised "raised + string"

text \<open>\<^verbatim>\<open>isinstance(v, str)\<close> and \<^verbatim>\<open>isinstance(v, Path)\<close>: a truth value, or what is raised.\<close>

fun isinstance_str :: "pyval \<Rightarrow> raised + bool" where
  "isinstance_str (PyStr s) = Inr True"
| "isinstance_str (PyBadClass x r) = Inl x"
| "isinstance_str v = Inr False"

fun isinstance_Path :: "pyval \<Rightarrow> raised + bool" where
  "isinstance_Path (PyPath p) = Inr True"
| "isinstance_Path (PyBadClass x r) = Inl x"
| "isinstance_Path v = Inr False"

fun py_str :: "pyval \<Rightarrow> raised + string" where
  "py_str PyNone = Inr ''None''"
| "py_str (PyStr s) = Inr s"
| "py_str (PyPath p) = Inr p"
| "py_str (PyPurePath p) = Inr p"
| "py_str (PyObj r) = r"
| "py_str (PyBadClass x r) = r"

text \<open>A dictionary with string keys; \<^verbatim>\<open>d.get(k)\<close> is \<^verbatim>\<open>None\<close> for a missing key.\<close>

type_synonym pydict = "string \<rightharpoonup> pyval"

definition dict_get :: "pydict \<Rightarrow> string \<Rightarrow> pyval" where
  "dict_get d k = (case d k of None \<Rightarrow> PyNone | Some v \<Rightarrow> v)"

subsection \<open>Strings\<close>

text \<open>
  Strings are lists of bytes here, and the functions below are Python's on ASCII text:
  a character outside ASCII is left as it is by \<open>ascii_upper\<close> and \<open>ascii_lower\<close>.
\<close>

text \<open>\<^verbatim>\<open>sub in s\<close>: \<open>sub\<close> occurs in \<open>s\<close> as a contiguous substring.\<close>

fun py_in :: "string \<Rightarrow> string \<Rightarrow> bool" where
  "py_in sub [] = (sub = [])"
| "py_in sub (c # cs) = (prefix sub (c # cs) \<or> py_in sub cs)"

text \<open>
  \<^verbatim>\<open>s.replace(old, new)\<close>: every occurrence of \<open>old\<close>, found from the left and not
  overlapping the one before, becomes \<open>new\<close>. For the empty \<open>old\<close> Python puts \<open>new\<close>
  before every character and at the end.
\<close>

function py_replace :: "string \<Rightarrow> string \<Rightarrow> string \<Rightarrow> string" where
  "py_replace old new [] = (if old = [] then new else [])"
| "py_replace old new (c # cs) =
     (if old = [] then new @ c # py_replace old new cs
      else if prefix old (c # cs)
      then new @ py_replace old new (drop (length old) (c # cs))
      else c # py_replace old new cs)"
  by pat_completeness auto
termination
  by (relation "measure (\<lambda>(old, new, s). length s)") auto

text \<open>
  \<^verbatim>\<open>re.split(r"[-_]", s)\<close>: the pieces of \<open>s\<close> between the hyphens and underscores;
  one more piece than there are separators, empty pieces kept.
\<close>

fun re_split :: "string \<Rightarrow> string list" where
  "re_split [] = [[]]"
| "re_split (c # cs) =
     (if c = CHR ''-'' \<or> c = CHR ''_'' then [] # re_split cs
      else (case re_split cs of [] \<Rightarrow> [[c]] | p # ps \<Rightarrow> (c # p) # ps))"

definition ascii_upper :: "char \<Rightarrow> char" where
  "ascii_upper c =
     (let n = (of_char c :: nat) in if 97 \<le> n \<and> n \<le> 122 then char_of (n - 32) else c)"

definition ascii_lower :: "char \<Rightarrow> char" where
  "ascii_lower c =
     (let n = (of_char c :: nat) in if 65 \<le> n \<and> n \<le> 90 then char_of (n + 32) else c)"

text \<open>\<^verbatim>\<open>s.capitalize()\<close>: the first character in upper case, all the others in lower case.\<close>

fun capitalize :: "string \<Rightarrow> string" where
  "capitalize [] = []"
| "capitalize (c # cs) = ascii_upper c # map ascii_lower cs"

subsection \<open>The name of the generated class\<close>

text \<open>
  A registered artifact repository is a class or any other callable. The file reads only
  its \<^verbatim>\<open>__name__\<close>: a class or a function has one (\<open>Named\<close>); a callable such as a
  \<^verbatim>\<open>functools.partial\<close> object has none (\<open>Unnamed\<close>), and reading it raises
  \<^verbatim>\<open>AttributeError\<close>.
\<close>

datatype artifact_repo = Named string | Unnamed

fun getattr_name :: "artifact_repo \<Rightarrow> error + string" where
  "getattr_name (Named n) = Inr n"
| "getattr_name Unnamed = Inl (AttributeError ''__name__'')"

definition camelcase_scheme :: "string \<Rightarrow> string" where
  "camelcase_scheme scheme = concat (map capitalize (re_split scheme))"

text \<open>
  Lines 38 to 56 of \<^verbatim>\<open>register_artifact_dataset_sources\<close>: the name of the class to
  generate for a scheme and its repository. (\<^verbatim>\<open>str(scheme)\<close> is the scheme itself,
  a string.)
\<close>

definition derive_dataset_source_name :: "string \<Rightarrow> artifact_repo \<Rightarrow> error + string" where
  "derive_dataset_source_name scheme artifact_repo =
     (case getattr_name artifact_repo of
        Inl e \<Rightarrow> Inl e
      | Inr repo_name \<Rightarrow>
          if py_in ''ArtifactRepository'' repo_name
          then Inr (py_replace ''ArtifactRepository'' ''ArtifactDatasetSource'' repo_name)
          else Inr (camelcase_scheme scheme @ ''ArtifactDatasetSource''))"

subsection \<open>The generated class\<close>

text \<open>
  The class \<^verbatim>\<open>ArtifactRepoSource\<close> that one call of
  \<^verbatim>\<open>_create_dataset_source_for_artifact_repo\<close> returns: the variables its methods
  close over (\<^verbatim>\<open>scheme\<close>, \<^verbatim>\<open>source_type\<close>, \<^verbatim>\<open>dataset_source_name\<close>), its
  \<^verbatim>\<open>__name__\<close> (which is its \<^verbatim>\<open>__qualname__\<close> too) and its \<^verbatim>\<open>__doc__\<close>. The
  docstrings of its methods are not modelled.
\<close>

record dataset_source_class =
  cls_scheme :: string
  cls_source_type :: string
  cls_dataset_source_name :: string
  cls_name :: string
  cls_doc :: "string option"

text \<open>An instance: its class and \<^verbatim>\<open>self._uri\<close>.\<close>

record artifact_repo_source =
  source_cls :: dataset_source_class
  uri :: pyval

definition get_source_type :: "dataset_source_class \<Rightarrow> string" where
  "get_source_type c = cls_source_type c"

definition to_dict :: "artifact_repo_source \<Rightarrow> pydict" where
  "to_dict self = [''uri'' \<mapsto> uri self]"

definition missing_uri_message :: "string \<Rightarrow> string" where
  "missing_uri_message dataset_source_name =
     ''Failed to parse '' @ dataset_source_name @ ''. Missing expected key: '' @
     [CHR 0x22] @ ''uri'' @ [CHR 0x22]"

definition from_dict :: "dataset_source_class \<Rightarrow> pydict \<Rightarrow> error + artifact_repo_source" where
  "from_dict cls source_dict =
     (let u = dict_get source_dict ''uri'' in
      if u = PyNone
      then Inl (MlflowException (missing_uri_message (cls_dataset_source_name cls))
                  INVALID_PARAMETER_VALUE)
      else Inr \<lparr>source_cls = cls, uri = u\<rparr>)"

text \<open>\<^verbatim>\<open>_resolve\<close>: \<^verbatim>\<open>cls(str(raw_source))\<close>; an exception of \<^verbatim>\<open>str\<close> propagates.\<close>

definition resolve :: "dataset_source_class \<Rightarrow> pyval \<Rightarrow> raised + artifact_repo_source" where
  "resolve cls raw_source =
     (case py_str raw_source of
        Inl x \<Rightarrow> Inl x
      | Inr s \<Rightarrow> Inr \<lparr>source_cls = cls, uri = PyStr s\<rparr>)"

subsection \<open>What the file imports\<close>

text \<open>
  The functions the file calls and does not define are parameters, gathered in one
  record, so that what is proved of the file holds whatever they do:
  \<^item> \<open>get_registered_artifact_repositories\<close>: the registry's dictionary, as the list
    of its items in iteration order;
  \<^item> \<open>register_dataset_source\<close>: given a class and the table of registered dataset
    sources, the new table, or the exception it raises (the table is then as it was);
  \<^item> \<open>experimental\<close>: the decorator returns the class it is given, or raises
    (\<open>Some e\<close>); the note it may put in \<^verbatim>\<open>__doc__\<close> is overwritten at line 164;
  \<^item> \<open>urlparse\<close> of \<^verbatim>\<open>urllib.parse\<close>: the parts of a URL, or the exception raised;
  \<^item> \<open>is_local_uri\<close> of \<^verbatim>\<open>mlflow.utils.uri\<close>, with its argument
    \<^verbatim>\<open>is_tracking_or_registry_uri\<close>: a truth value, or the exception raised.
\<close>

record parse_result =
  pr_scheme :: string
  pr_netloc :: string
  pr_rest :: string

record env =
  get_registered_artifact_repositories :: "(string \<times> artifact_repo) list"
  register_dataset_source ::
    "dataset_source_class \<Rightarrow> dataset_source_class list \<Rightarrow> error + dataset_source_class list"
  experimental :: "dataset_source_class \<Rightarrow> error option"
  urlparse :: "string \<Rightarrow> error + parse_result"
  is_local_uri :: "string \<Rightarrow> bool \<Rightarrow> error + bool"

subsection \<open>Building the class\<close>

definition local_docstring :: string where
  "local_docstring = ''Represents the source of a dataset stored on the local filesystem.''"

definition scheme_docstring :: "string \<Rightarrow> string" where
  "scheme_docstring scheme =
     ''Represents a filesystem-based or blob-storage-based dataset source identified by a''
     @ '' URI with scheme '' @ [CHR 0x27] @ scheme @ [CHR 0x27] @ ''.''"

text \<open>
  \<^verbatim>\<open>_create_dataset_source_for_artifact_repo\<close>. The class statement runs the decorator
  on the class, still named \<^verbatim>\<open>ArtifactRepoSource\<close> and without a docstring; lines 162
  to 164 then set its name and its docstring.
\<close>

definition create_dataset_source_for_artifact_repo ::
  "env \<Rightarrow> string \<Rightarrow> string \<Rightarrow> error + dataset_source_class" where
  "create_dataset_source_for_artifact_repo env scheme dataset_source_name =
     (let (source_type, class_docstring) =
            (if scheme \<in> {[], ''file''} then (''local'', local_docstring)
             else (scheme, scheme_docstring scheme));
          ArtifactRepoSource =
            \<lparr>cls_scheme = scheme, cls_source_type = source_type,
             cls_dataset_source_name = dataset_source_name,
             cls_name = ''ArtifactRepoSource'', cls_doc = None\<rparr>
      in case experimental env ArtifactRepoSource of
           Some e \<Rightarrow> Inl e
         | None \<Rightarrow>
             Inr (ArtifactRepoSource\<lparr>cls_name := dataset_source_name,
                                     cls_doc := Some class_docstring\<rparr>))"

subsection \<open>Recognising a raw source\<close>

text \<open>
  \<^verbatim>\<open>try: body except Exception: handler\<close>, for a body that returns: the handler gets an
  exception that is a subclass of \<^verbatim>\<open>Exception\<close>; anything else that is raised goes on.
\<close>

definition try_except :: "raised + 'a \<Rightarrow> (error \<Rightarrow> raised + 'a) \<Rightarrow> raised + 'a" where
  "try_except body handler =
     (case body of
        Inl (Exc e) \<Rightarrow> handler e
      | Inl (BaseExc b) \<Rightarrow> Inl (BaseExc b)
      | Inr v \<Rightarrow> Inr v)"

text \<open>The body of the \<^verbatim>\<open>try\<close> in \<^verbatim>\<open>_can_resolve\<close>, lines 131 to 134.\<close>

definition can_resolve_body :: "env \<Rightarrow> dataset_source_class \<Rightarrow> pyval \<Rightarrow> raised + bool" where
  "can_resolve_body env cls raw_source =
     (if get_source_type cls = ''local''
      then (case py_str raw_source of
              Inl x \<Rightarrow> Inl x
            | Inr s \<Rightarrow> library_call (is_local_uri env s False))
      else (case py_str raw_source of
              Inl x \<Rightarrow> Inl x
            | Inr s \<Rightarrow>
                (case library_call (urlparse env s) of
                   Inl x \<Rightarrow> Inl x
                 | Inr parsed_source \<Rightarrow> Inr (pr_scheme parsed_source = cls_scheme cls))))"

text \<open>
  \<^verbatim>\<open>_can_resolve\<close>. The condition of line 125 stands before the \<^verbatim>\<open>try\<close>:
  \<^verbatim>\<open>isinstance(raw_source, str)\<close> is evaluated first, and
  \<^verbatim>\<open>isinstance(raw_source, Path)\<close> only for a value that is not a string; what either
  raises leaves the method.
\<close>

definition can_resolve :: "env \<Rightarrow> dataset_source_class \<Rightarrow> pyval \<Rightarrow> raised + bool" where
  "can_resolve env cls raw_source =
     (let is_local_source_type = (get_source_type cls = ''local'') in
      case isinstance_str raw_source of
        Inl x \<Rightarrow> Inl x
      | Inr is_str \<Rightarrow>
          (case (if is_str then Inr False
                 else (case isinstance_Path raw_source of
                         Inl x \<Rightarrow> Inl x
                       | Inr is_path \<Rightarrow> Inr (\<not> is_path \<and> is_local_source_type))) of
             Inl x \<Rightarrow> Inl x
           | Inr rejected \<Rightarrow>
               if rejected then Inr False
               else try_except (can_resolve_body env cls raw_source) (\<lambda>e. Inr False)))"

subsection \<open>Registration\<close>

definition artifact_schemes_to_exclude :: "string list" where
  "artifact_schemes_to_exclude =
     [''http'', ''https'', ''runs'', ''models'', ''mlflow-artifacts'', ''dbfs'']"

text \<open>
  The state the loop works on: its local set \<^verbatim>\<open>registered_source_schemes\<close>, the
  table of registered dataset sources, and the warnings emitted so far.
\<close>

record reg_state =
  registered_source_schemes :: "string set"
  sources :: "dataset_source_class list"
  warnings :: "string list"

definition warning_message :: "string \<Rightarrow> error \<Rightarrow> string" where
  "warning_message scheme e =
     ''Failed to register a dataset source for URIs with scheme '' @ [CHR 0x27] @ scheme
     @ [CHR 0x27] @ '': '' @ error_str e"

text \<open>
  One turn of the loop, lines 35 to 68. The result is the exception that leaves the loop,
  if any, and the state. The name is derived outside the \<^verbatim>\<open>try\<close>; inside it the scheme
  is added to the set, the class is built and then registered, and an exception of either
  becomes a warning.
\<close>

definition register_entry ::
  "env \<Rightarrow> string \<times> artifact_repo \<Rightarrow> reg_state \<Rightarrow> error option \<times> reg_state" where
  "register_entry env entry st =
     (case entry of (scheme, artifact_repo) \<Rightarrow>
        if scheme \<in> set artifact_schemes_to_exclude \<or> scheme \<in> registered_source_schemes st
        then (None, st)
        else
          (case derive_dataset_source_name scheme artifact_repo of
             Inl e \<Rightarrow> (Some e, st)
           | Inr dataset_source_name \<Rightarrow>
               (let st1 = st\<lparr>registered_source_schemes :=
                              insert scheme (registered_source_schemes st)\<rparr>
                in case (case create_dataset_source_for_artifact_repo env scheme
                                dataset_source_name of
                           Inl e \<Rightarrow> Inl e
                         | Inr dataset_source \<Rightarrow>
                             register_dataset_source env dataset_source (sources st1)) of
                     Inr table \<Rightarrow> (None, st1\<lparr>sources := table\<rparr>)
                   | Inl e \<Rightarrow>
                       (None, st1\<lparr>warnings := warnings st1 @ [warning_message scheme e]\<rparr>))))"

fun register_loop ::
  "env \<Rightarrow> (string \<times> artifact_repo) list \<Rightarrow> reg_state \<Rightarrow> error option \<times> reg_state" where
  "register_loop env [] st = (None, st)"
| "register_loop env (entry # rest) st =
     (case register_entry env entry st of
        (Some e, st') \<Rightarrow> (Some e, st')
      | (None, st') \<Rightarrow> register_loop env rest st')"

text \<open>
  \<^verbatim>\<open>register_artifact_dataset_sources\<close>, from the table and the warnings it finds: the
  set of claimed schemes starts empty at every call.
\<close>

definition register_artifact_dataset_sources ::
  "env \<Rightarrow> dataset_source_class list \<Rightarrow> string list
     \<Rightarrow> error option \<times> dataset_source_class list \<times> string list" where
  "register_artifact_dataset_sources env table warned =
     (case register_loop env (get_registered_artifact_repositories env)
             \<lparr>registered_source_schemes = {}, sources = table, warnings = warned\<rparr> of
        (err, st) \<Rightarrow> (err, sources st, warnings st))"

subsection \<open>Python's urlparse, and the local test\<close>

definition is_ascii_alpha :: "char \<Rightarrow> bool" where
  "is_ascii_alpha c =
     (let n = (of_char c :: nat) in (65 \<le> n \<and> n \<le> 90) \<or> (97 \<le> n \<and> n \<le> 122))"

definition is_scheme_char :: "char \<Rightarrow> bool" where
  "is_scheme_char c =
     (let n = (of_char c :: nat) in
      is_ascii_alpha c \<or> (48 \<le> n \<and> n \<le> 57) \<or> c \<in> set ''+-.'')"

text \<open>
  The scheme and the network location that \<^verbatim>\<open>urllib.parse.urlparse\<close> finds, as
  CPython 3.11 does it: leading characters up to the space and all tabs, carriage returns
  and line feeds are dropped; the text before the first colon is the scheme, in lower
  case, when it starts with a letter and has only letters, digits, \<open>+\<close>, \<open>-\<close> and
  \<open>.\<close>; after \<open>//\<close> comes the network location, up to the next \<open>/\<close>, \<open>?\<close> or
  \<open>#\<close>, and one with a bracket that has no partner raises \<^verbatim>\<open>ValueError\<close>. The checks
  of what stands between the brackets and of the location's NFKC form are left out, and
  \<open>pr_rest\<close> is what follows, not split further.
\<close>

definition py_urlparse :: "string \<Rightarrow> error + parse_result" where
  "py_urlparse url0 =
     (let url1 = dropWhile (\<lambda>c. (of_char c :: nat) \<le> 32) url0;
          url = filter (\<lambda>c. c \<notin> set [CHR 0x09, CHR 0x0D, CHR 0x0A]) url1;
          head = takeWhile (\<lambda>c. c \<noteq> CHR '':'') url;
          (scheme, rest) =
            (if CHR '':'' \<in> set url \<and> head \<noteq> [] \<and> is_ascii_alpha (hd head)
                \<and> list_all is_scheme_char head
             then (map ascii_lower head, drop (length head + 1) url)
             else ([], url))
      in if take 2 rest = ''//''
         then (let netloc = takeWhile (\<lambda>c. c \<notin> set ''/?#'') (drop 2 rest) in
               if (CHR ''['' \<in> set netloc \<and> CHR '']'' \<notin> set netloc)
                  \<or> (CHR '']'' \<in> set netloc \<and> CHR ''['' \<notin> set netloc)
               then Inl (ValueError ''Invalid IPv6 URL'')
               else Inr \<lparr>pr_scheme = scheme, pr_netloc = netloc,
                         pr_rest = drop (2 + length netloc) rest\<rparr>)
         else Inr \<lparr>pr_scheme = scheme, pr_netloc = [], pr_rest = rest\<rparr>)"

text \<open>
  Modelled from the spec: \<^verbatim>\<open>is_local_uri\<close> of \<^verbatim>\<open>mlflow.utils.uri\<close> is not among the
  sources. The spec calls it a test that the text looks like a local URI with no network
  scheme, and has the empty scheme and \<open>file\<close> both denote the local backend; a
  parsing failure is an exception here, which the caller turns into a rejection. The
  caller always passes \<^verbatim>\<open>is_tracking_or_registry_uri=False\<close>.
\<close>

definition spec_is_local_uri :: "string \<Rightarrow> bool \<Rightarrow> error + bool" where
  "spec_is_local_uri uri_text is_tracking_or_registry_uri =
     (case py_urlparse uri_text of
        Inl e \<Rightarrow> Inl e
      | Inr parsed \<Rightarrow> Inr (pr_scheme parsed = [] \<or> pr_scheme parsed = ''file''))"

text \<open>
  Modelled from the spec: \<^verbatim>\<open>register_dataset_source\<close> of
  \<^verbatim>\<open>mlflow.data.dataset_source_registry\<close> is not among the sources. The spec's
  resolution table is an ordered collection in insertion order, in which a type name
  occurs once, and a name collision is a registration error: registering a class whose
  name the table holds raises, and registering any other class puts it at the end.
\<close>

definition spec_register_dataset_source ::
  "dataset_source_class \<Rightarrow> dataset_source_class list \<Rightarrow> error + dataset_source_class list" where
  "spec_register_dataset_source dataset_source table =
     (if cls_name dataset_source \<in> set (map cls_name table)
      then Inl (PyException (''name collision: '' @ cls_name dataset_source))
      else Inr (table @ [dataset_source]))"

text \<open>
  An environment to run the file in: the given repositories, a decorator that does not
  raise, and the functions above.
\<close>

definition py_env :: "(string \<times> artifact_repo) list \<Rightarrow> env" where
  "py_env repos =
     \<lparr>get_registered_artifact_repositories = repos,
      register_dataset_source = spec_register_dataset_source,
      experimental = (\<lambda>cls. None),
      urlparse = py_urlparse,
      is_local_uri = spec_is_local_uri\<rparr>"

text \<open>
  What the table's theorems ask of \<open>register_dataset_source\<close>: when it returns, the
  new table is the old one with the class at its end.
\<close>

definition appends :: "env \<Rightarrow> bool" where
  "appends env =
     (\<forall>cls table table'.
        register_dataset_source env cls table = Inr table' \<longrightarrow> table' = table @ [cls])"

text \<open>
  An environment in which two registrations fail: the decorator raises for the class of
  scheme \<open>gs\<close>, and registering raises for the class of scheme \<open>ftp\<close>.
\<close>

definition failing_env :: "(string \<times> artifact_repo) list \<Rightarrow> env" where
  "failing_env repos =
     (py_env repos)
       \<lparr>register_dataset_source :=
          (\<lambda>cls table. if cls_scheme cls = ''ftp'' then Inl (ValueError ''not accepted'')
                        else Inr (table @ [cls])),
        experimental :=
          (\<lambda>cls. if cls_scheme cls = ''gs'' then Some (PyException ''decorator failed'')
                  else None)\<rparr>"

text \<open>
  An environment whose \<open>register_dataset_source\<close> puts every class at the end of the
  table, whatever the table holds.
\<close>

definition appending_env :: "(string \<times> artifact_repo) list \<Rightarrow> env" where
  "appending_env repos =
     (py_env repos)\<lparr>register_dataset_source := (\<lambda>cls table. Inr (table @ [cls]))\<rparr>"

section \<open>The class that is built\<close>

text \<open>What a class that was built holds.\<close>

lemma create_Inr:
  "create_dataset_source_for_artifact_repo env scheme nm = Inr cls \<Longrightarrow>
   cls_scheme cls = scheme
   \<and> cls_source_type cls = (if scheme \<in> {[], ''file''} then ''local'' else scheme)
   \<and> cls_dataset_source_name cls = nm \<and> cls_name cls = nm
   \<and> cls_doc cls = Some (if scheme \<in> {[], ''file''} then local_docstring
                          else scheme_docstring scheme)"
  by (auto simp: create_dataset_source_for_artifact_repo_def Let_def split: option.splits if_splits)

lemma create_py_env:
  "create_dataset_source_for_artifact_repo (py_env repos) scheme nm =
     Inr \<lparr>cls_scheme = scheme,
          cls_source_type = (if scheme \<in> {[], ''file''} then ''local'' else scheme),
          cls_dataset_source_name = nm, cls_name = nm,
          cls_doc = Some (if scheme \<in> {[], ''file''} then local_docstring
                          else scheme_docstring scheme)\<rparr>"
  by (simp add: create_dataset_source_for_artifact_repo_def py_env_def)

lemma urlparse_examples:
  "py_urlparse ''s3://bucket/key'' = Inr \<lparr>pr_scheme = ''s3'', pr_netloc = ''bucket'', pr_rest = ''/key''\<rparr>"
  "py_urlparse ''https://example.com/x'' = Inr \<lparr>pr_scheme = ''https'', pr_netloc = ''example.com'', pr_rest = ''/x''\<rparr>"
  "py_urlparse ''/tmp/data'' = Inr \<lparr>pr_scheme = [], pr_netloc = [], pr_rest = ''/tmp/data''\<rparr>"
  "py_urlparse ''runs:/abc/data'' = Inr \<lparr>pr_scheme = ''runs'', pr_netloc = [], pr_rest = ''/abc/data''\<rparr>"
  "py_urlparse ''local://bucket/key'' = Inr \<lparr>pr_scheme = ''local'', pr_netloc = ''bucket'', pr_rest = ''/key''\<rparr>"
  "py_urlparse ''S3://bucket/key'' = Inr \<lparr>pr_scheme = ''s3'', pr_netloc = ''bucket'', pr_rest = ''/key''\<rparr>"
  "py_urlparse ''s3://[bucket/key'' = Inl (ValueError ''Invalid IPv6 URL'')"
  by code_simp+

section \<open>Serialisation\<close>

text \<open>
  C4. For every class and every string \<open>s\<close>: deserialising the dictionary
  \<open>{"uri": s}\<close> succeeds, and serialising the instance gives that dictionary back;
  deserialising a dictionary that maps \<open>"uri"\<close> to \<open>s\<close> and has any other keys
  gives the instance with uri \<open>s\<close> (the other keys are ignored); and deserialising
  the serialisation of an instance with a string uri, the type the constructor declares,
  gives an instance of the same uri. The last holds as well for a uri that is a path or
  another object: for every uri but \<open>None\<close>.
\<close>

theorem serialization_round_trip:
  "(\<exists>r. from_dict cls [''uri'' \<mapsto> PyStr s] = Inr r \<and> to_dict r = [''uri'' \<mapsto> PyStr s])
   \<and> from_dict cls (d(''uri'' \<mapsto> PyStr s)) = Inr \<lparr>source_cls = cls, uri = PyStr s\<rparr>
   \<and> (\<exists>r'. from_dict cls (to_dict \<lparr>source_cls = cls, uri = PyStr s\<rparr>) = Inr r'
          \<and> uri r' = PyStr s)
   \<and> from_dict cls (to_dict \<lparr>source_cls = cls, uri = PyStr s\<rparr>)
       = Inr \<lparr>source_cls = cls, uri = PyStr s\<rparr>
   \<and> from_dict cls (to_dict \<lparr>source_cls = cls, uri = PyPath s\<rparr>)
       = Inr \<lparr>source_cls = cls, uri = PyPath s\<rparr>
   \<and> from_dict cls (to_dict \<lparr>source_cls = cls, uri = PyObj obj\<rparr>)
       = Inr \<lparr>source_cls = cls, uri = PyObj obj\<rparr>
   \<and> from_dict cls (to_dict \<lparr>source_cls = cls, uri = PyPurePath s\<rparr>)
       = Inr \<lparr>source_cls = cls, uri = PyPurePath s\<rparr>
   \<and> from_dict cls (to_dict \<lparr>source_cls = cls, uri = PyBadClass x obj\<rparr>)
       = Inr \<lparr>source_cls = cls, uri = PyBadClass x obj\<rparr>"
  by (simp add: from_dict_def to_dict_def dict_get_def)

text \<open>
  C5. Deserialising the empty dictionary raises: the result is an
  \<open>MlflowException\<close> with the code \<open>INVALID_PARAMETER_VALUE\<close>, and its message
  is \<open>Failed to parse\<close>, the class's type name, and \<open>Missing expected key: "uri"\<close>.
  For a class that was built, the type name is the name it was built with, which is its
  \<open>__name__\<close>. The exception is the result of the call: nothing catches it.
\<close>

theorem from_dict_empty_raises:
  "from_dict cls Map.empty =
     Inl (MlflowException
            (''Failed to parse '' @ cls_dataset_source_name cls @
             ''. Missing expected key: '' @ [CHR 0x22] @ ''uri'' @ [CHR 0x22])
            INVALID_PARAMETER_VALUE)
   \<and> (create_dataset_source_for_artifact_repo env scheme nm = Inr built \<longrightarrow>
        cls_name built = nm
        \<and> from_dict built Map.empty =
           Inl (MlflowException
                  (''Failed to parse '' @ nm @
                   ''. Missing expected key: '' @ [CHR 0x22] @ ''uri'' @ [CHR 0x22])
                  INVALID_PARAMETER_VALUE))"
proof -
  have a: "from_dict c Map.empty =
     Inl (MlflowException
            (''Failed to parse '' @ cls_dataset_source_name c @
             ''. Missing expected key: '' @ [CHR 0x22] @ ''uri'' @ [CHR 0x22])
            INVALID_PARAMETER_VALUE)" for c
    by (simp add: from_dict_def dict_get_def missing_uri_message_def)
  have b: "cls_name built = nm \<and> cls_dataset_source_name built = nm"
    if "create_dataset_source_for_artifact_repo env scheme nm = Inr built"
    using create_Inr [OF that] by simp
  from a [of cls] a [of built] b show ?thesis by simp
qed

text \<open>The theorem for the class of \<open>s3\<close>.\<close>

theorem from_dict_empty_raises_witness:
  "\<exists>built. create_dataset_source_for_artifact_repo (py_env []) ''s3'' ''S3ArtifactDatasetSource''
        = Inr built
     \<and> cls_name built = ''S3ArtifactDatasetSource''
     \<and> from_dict built Map.empty =
         Inl (MlflowException
                (''Failed to parse S3ArtifactDatasetSource. Missing expected key: ''
                 @ [CHR 0x22] @ ''uri'' @ [CHR 0x22])
                INVALID_PARAMETER_VALUE)"
proof -
  obtain built where c:
    "create_dataset_source_for_artifact_repo (py_env []) ''s3'' ''S3ArtifactDatasetSource'' = Inr built"
    by (simp add: create_py_env)
  from from_dict_empty_raises [of built "py_env []" "''s3''" "''S3ArtifactDatasetSource''" built] c
  have n: "cls_name built = ''S3ArtifactDatasetSource''"
    and f: "from_dict built Map.empty =
         Inl (MlflowException
                (''Failed to parse '' @ ''S3ArtifactDatasetSource'' @
                 ''. Missing expected key: '' @ [CHR 0x22] @ ''uri'' @ [CHR 0x22])
                INVALID_PARAMETER_VALUE)"
    by blast+
  from f have "from_dict built Map.empty =
         Inl (MlflowException
                (''Failed to parse S3ArtifactDatasetSource. Missing expected key: ''
                 @ [CHR 0x22] @ ''uri'' @ [CHR 0x22])
                INVALID_PARAMETER_VALUE)"
    by simp
  with c n show ?thesis by blast
qed

text \<open>
  C10. A dictionary that maps \<open>"uri"\<close> to \<open>None\<close> raises the same exception as
  the empty dictionary, whatever other keys it has: the test is on the value that
  \<open>get\<close> returns, not on the presence of the key.
\<close>

theorem from_dict_uri_None_raises:
  "from_dict cls [''uri'' \<mapsto> PyNone] = from_dict cls Map.empty
   \<and> from_dict cls (d(''uri'' \<mapsto> PyNone)) = from_dict cls Map.empty
   \<and> from_dict cls [''uri'' \<mapsto> PyNone] =
       Inl (MlflowException (missing_uri_message (cls_dataset_source_name cls))
              INVALID_PARAMETER_VALUE)
   \<and> [''uri'' \<mapsto> PyNone] ''uri'' \<noteq> None"
  by (simp add: from_dict_def dict_get_def)

section \<open>The name deriver\<close>

lemma py_in_iff: "py_in sub s \<longleftrightarrow> (\<exists>ps ss. s = ps @ sub @ ss)"
proof (induction s)
  case Nil
  then show ?case by auto
next
  case (Cons c cs)
  show ?case
  proof
    assume "py_in sub (c # cs)"
    then consider "prefix sub (c # cs)" | "py_in sub cs" by auto
    then show "\<exists>ps ss. c # cs = ps @ sub @ ss"
    proof cases
      case 1
      then obtain ss where "c # cs = sub @ ss" by (auto simp: prefix_def)
      then have "c # cs = [] @ sub @ ss" by simp
      then show ?thesis by blast
    next
      case 2
      with Cons.IH obtain ps ss where "cs = ps @ sub @ ss" by blast
      then have "c # cs = (c # ps) @ sub @ ss" by simp
      then show ?thesis by blast
    qed
  next
    assume "\<exists>ps ss. c # cs = ps @ sub @ ss"
    then obtain ps ss where e: "c # cs = ps @ sub @ ss" by blast
    show "py_in sub (c # cs)"
    proof (cases ps)
      case Nil
      with e have "prefix sub (c # cs)" by (simp add: prefix_def)
      then show ?thesis by simp
    next
      case (Cons p ps')
      with e have "cs = ps' @ sub @ ss" by simp
      with Cons.IH have "py_in sub cs" by blast
      then show ?thesis by simp
    qed
  qed
qed

text \<open>
  A token whose first character occurs nowhere else in it cannot start inside a stem
  that does not contain it and run over into a copy of itself that follows the stem.
\<close>

lemma not_prefix_stem:
  assumes "a \<notin> set t" and "\<not> prefix (a # t) (c # cs)"
  shows "\<not> prefix (a # t) (c # cs @ a # t)"
proof
  assume p: "prefix (a # t) (c # cs @ a # t)"
  then have ac: "a = c" and pt: "prefix t (cs @ a # t)" by auto
  from assms(2) ac have npt: "\<not> prefix t cs" by simp
  from pt npt obtain us where t: "t = cs @ us" and pu: "prefix us (a # t)"
    by (auto simp: prefix_append)
  from t npt have "us \<noteq> []" by auto
  with pu obtain us' where "us = a # us'" by (cases us) auto
  with t have "a \<in> set t" by simp
  with assms(1) show False by contradiction
qed

lemma replace_stem_token:
  assumes "a \<notin> set t" and "\<not> py_in (a # t) stem"
  shows "py_replace (a # t) new (stem @ a # t) = stem @ new"
  using assms(2)
proof (induction stem)
  case Nil
  then show ?case by simp
next
  case (Cons c cs)
  then have np: "\<not> prefix (a # t) (c # cs)" and ni: "\<not> py_in (a # t) cs" by auto
  from not_prefix_stem [OF assms(1) np] have "\<not> prefix (a # t) (c # cs @ a # t)" .
  then have "py_replace (a # t) new ((c # cs) @ a # t) = c # py_replace (a # t) new (cs @ a # t)"
    by auto
  with Cons.IH [OF ni] show ?case by simp
qed

lemma replace_repository_token:
  assumes "\<not> py_in ''ArtifactRepository'' stem"
  shows "py_replace ''ArtifactRepository'' new (stem @ ''ArtifactRepository'') = stem @ new"
proof -
  have "CHR ''A'' \<notin> set ''rtifactRepository''" by simp
  from replace_stem_token [OF this, of stem new] assms show ?thesis by simp
qed

lemma re_split_no_separator:
  "CHR ''-'' \<notin> set seg \<Longrightarrow> CHR ''_'' \<notin> set seg \<Longrightarrow> re_split seg = [seg]"
  by (induction seg) auto

lemma re_split_separator:
  "CHR ''-'' \<notin> set seg \<Longrightarrow> CHR ''_'' \<notin> set seg \<Longrightarrow> sep = CHR ''-'' \<or> sep = CHR ''_'' \<Longrightarrow>
   re_split (seg @ sep # rest) = seg # re_split rest"
  by (induction seg) auto


text \<open>
  C7, as amended. The derived name depends on the scheme and the repository's name only.
  When the repository's name contains \<open>ArtifactRepository\<close> (anywhere, not only at
  its end), the derived name is that name with every occurrence of the token replaced by
  \<open>ArtifactDatasetSource\<close>; for a name made of a stem that does not contain the token,
  followed by the token, this is the stem followed by \<open>ArtifactDatasetSource\<close>.
  When the repository's name does not contain the token, the derived name is the
  scheme's pieces between hyphens and underscores, each capitalized (first character in
  upper case, the others in lower case), concatenated, followed by
  \<open>ArtifactDatasetSource\<close>. The last three conjuncts say what the pieces and their
  capitalization are.
\<close>

theorem derive_dataset_source_name_cases:
  "(\<not> py_in ''ArtifactRepository'' stem \<longrightarrow>
      derive_dataset_source_name scheme (Named (stem @ ''ArtifactRepository''))
        = Inr (stem @ ''ArtifactDatasetSource''))
   \<and> (py_in ''ArtifactRepository'' repo_name \<longrightarrow>
      derive_dataset_source_name scheme (Named repo_name)
        = Inr (py_replace ''ArtifactRepository'' ''ArtifactDatasetSource'' repo_name))
   \<and> (\<not> py_in ''ArtifactRepository'' repo_name \<longrightarrow>
      derive_dataset_source_name scheme (Named repo_name)
        = Inr (concat (map capitalize (re_split scheme)) @ ''ArtifactDatasetSource''))
   \<and> (CHR ''-'' \<notin> set seg \<and> CHR ''_'' \<notin> set seg \<longrightarrow>
        re_split seg = [seg]
        \<and> re_split (seg @ CHR ''-'' # rest) = seg # re_split rest
        \<and> re_split (seg @ CHR ''_'' # rest) = seg # re_split rest)
   \<and> capitalize (c # cs) = ascii_upper c # map ascii_lower cs
   \<and> capitalize [] = []"
proof -
  have a: "derive_dataset_source_name scheme (Named (stem @ ''ArtifactRepository''))
        = Inr (stem @ ''ArtifactDatasetSource'')" if h: "\<not> py_in ''ArtifactRepository'' stem"
  proof -
    have "py_in ''ArtifactRepository'' (stem @ ''ArtifactRepository'')"
      unfolding py_in_iff by (metis append_Nil2)
    then show ?thesis
      using replace_repository_token [OF h, of "''ArtifactDatasetSource''"]
      by (simp add: derive_dataset_source_name_def)
  qed
  have b: "re_split seg = [seg] \<and> re_split (seg @ CHR ''-'' # rest) = seg # re_split rest
        \<and> re_split (seg @ CHR ''_'' # rest) = seg # re_split rest"
    if "CHR ''-'' \<notin> set seg \<and> CHR ''_'' \<notin> set seg"
    using that by (simp add: re_split_no_separator re_split_separator)
  show ?thesis
    using a b by (simp add: derive_dataset_source_name_def camelcase_scheme_def)
qed

text \<open>
  The theorem at \<open>S3ArtifactRepository\<close>, at a factory's name with the scheme
  \<open>my-scheme\<close>, and at a name that contains the token without ending with it.
\<close>

theorem derive_dataset_source_name_cases_witness:
  "derive_dataset_source_name ''s3'' (Named ''S3ArtifactRepository'') = Inr ''S3ArtifactDatasetSource''
   \<and> derive_dataset_source_name ''my-scheme'' (Named ''my_scheme_repo_factory'')
       = Inr ''MySchemeArtifactDatasetSource''
   \<and> derive_dataset_source_name ''my-scheme'' (Named ''ArtifactRepositoryFactory'')
       = Inr ''ArtifactDatasetSourceFactory''
   \<and> re_split ''my-scheme'' = [''my'', ''scheme'']
   \<and> capitalize ''sCHEME'' = ''Scheme''"
proof -
  have h1: "\<not> py_in ''ArtifactRepository'' ''S3''" by simp
  have h2: "py_in ''ArtifactRepository'' ''ArtifactRepositoryFactory''" by simp
  have h3: "\<not> py_in ''ArtifactRepository'' ''my_scheme_repo_factory''" by simp
  have h4: "CHR ''-'' \<notin> set ''my'' \<and> CHR ''_'' \<notin> set ''my''" by simp
  have h5: "CHR ''-'' \<notin> set ''scheme'' \<and> CHR ''_'' \<notin> set ''scheme''" by simp
  have u: "ascii_upper CHR ''m'' = CHR ''M''" "ascii_upper CHR ''s'' = CHR ''S''"
    by code_simp+
  have l: "map ascii_lower ''y'' = ''y''" "map ascii_lower ''cheme'' = ''cheme''"
     "map ascii_lower ''CHEME'' = ''cheme''"
    by code_simp+
  have r: "py_replace ''ArtifactRepository'' ''ArtifactDatasetSource'' ''ArtifactRepositoryFactory''
      = ''ArtifactDatasetSourceFactory''" by simp
  from derive_dataset_source_name_cases [of "''S3''" "''s3''" "''ArtifactRepositoryFactory''" "''scheme''" "[]" "CHR ''s''" "''CHEME''"]
    derive_dataset_source_name_cases [of "''S3''" "''my-scheme''" "''ArtifactRepositoryFactory''" "''my''" "''scheme''" "CHR ''m''" "''y''"]
    derive_dataset_source_name_cases [of "''S3''" "''my-scheme''" "''my_scheme_repo_factory''" "''scheme''" "[]" "CHR ''s''" "''cheme''"]
    h1 h2 h3 h4 h5 u l r
  show ?thesis by simp
qed

text \<open>
  C7 as stated fails: \<open>ArtifactRepositoryFactory\<close> does not end with the token, and
  the derived name is not the scheme's camel case with the suffix.
\<close>

theorem derive_dataset_source_name_counterexample:
  "\<not> suffix ''ArtifactRepository'' ''ArtifactRepositoryFactory''
   \<and> derive_dataset_source_name ''my-scheme'' (Named ''ArtifactRepositoryFactory'')
       = Inr ''ArtifactDatasetSourceFactory''
   \<and> concat (map capitalize (re_split ''my-scheme'')) @ ''ArtifactDatasetSource''
       = ''MySchemeArtifactDatasetSource''
   \<and> derive_dataset_source_name ''my-scheme'' (Named ''ArtifactRepositoryFactory'')
       \<noteq> Inr (concat (map capitalize (re_split ''my-scheme'')) @ ''ArtifactDatasetSource'')"
  by code_simp

section \<open>Recognising a raw source\<close>

text \<open>
  For a value whose type tests return, \<open>can_resolve\<close> is the rejection of line 128 or
  the \<open>try\<close>.
\<close>

lemma can_resolve_tested:
  assumes "isinstance_str raw_source = Inr is_str" and "isinstance_Path raw_source = Inr is_path"
  shows "can_resolve env cls raw_source =
     (if \<not> is_str \<and> \<not> is_path \<and> get_source_type cls = ''local'' then Inr False
      else try_except (can_resolve_body env cls raw_source) (\<lambda>e. Inr False))"
  using assms by (cases raw_source) (auto simp: can_resolve_def)




text \<open>
  C3, as amended. For the class built for the empty scheme or for \<open>file\<close>: a value
  that is neither a \<open>str\<close> nor a \<open>pathlib.Path\<close> is rejected, whatever its string
  form, and so is a path-like object that is not a \<open>pathlib.Path\<close>; a \<open>str\<close> or a
  \<open>pathlib.Path\<close> is accepted exactly when \<open>is_local_uri\<close>, told that the text is
  not a tracking or registry URI, returns true. With the local test as the spec describes
  it, \<open>/tmp/data\<close> is accepted, and \<open>https://example.com/x\<close> and
  \<open>runs:/abc/data\<close> are rejected.
\<close>

theorem can_resolve_local:
  assumes "create_dataset_source_for_artifact_repo env scheme nm = Inr cls"
    and "scheme = [] \<or> scheme = ''file''"
  shows "can_resolve env cls PyNone = Inr False
   \<and> can_resolve env cls (PyObj r) = Inr False
   \<and> can_resolve env cls (PyPurePath p) = Inr False
   \<and> can_resolve env cls (PyStr s) = Inr (is_local_uri env s False = Inr True)
   \<and> can_resolve env cls (PyPath s) = Inr (is_local_uri env s False = Inr True)
   \<and> (is_local_uri env = spec_is_local_uri \<longrightarrow>
        can_resolve env cls (PyStr ''/tmp/data'') = Inr True
        \<and> can_resolve env cls (PyStr ''https://example.com/x'') = Inr False
        \<and> can_resolve env cls (PyStr ''runs:/abc/data'') = Inr False)"
proof -
  from create_Inr [OF assms(1)] assms(2) have t: "get_source_type cls = ''local''"
    by (auto simp: get_source_type_def)
  have g: "can_resolve env cls (PyStr u) = Inr (is_local_uri env u False = Inr True)"
      "can_resolve env cls (PyPath u) = Inr (is_local_uri env u False = Inr True)" for u
    using t
    by (auto simp: can_resolve_def can_resolve_body_def try_except_def library_call_def
          split: sum.splits raised.splits)
  have n: "can_resolve env cls PyNone = Inr False" "can_resolve env cls (PyObj r) = Inr False"
      "can_resolve env cls (PyPurePath p) = Inr False"
    using t by (simp_all add: can_resolve_def)
  have x: "spec_is_local_uri ''/tmp/data'' False = Inr True"
      "spec_is_local_uri ''https://example.com/x'' False = Inr False"
      "spec_is_local_uri ''runs:/abc/data'' False = Inr False"
    by (simp_all add: spec_is_local_uri_def urlparse_examples)
  show ?thesis using g n x by simp
qed

text \<open>The theorem for the classes of \<open>file\<close> and of the empty scheme.\<close>

theorem can_resolve_local_witness:
  "(\<exists>cls. create_dataset_source_for_artifact_repo (py_env []) ''file'' ''LocalArtifactDatasetSource'' = Inr cls
      \<and> can_resolve (py_env []) cls PyNone = Inr False
      \<and> can_resolve (py_env []) cls (PyObj (Inr ''/tmp/data'')) = Inr False
      \<and> can_resolve (py_env []) cls (PyPurePath ''/tmp/data'') = Inr False
      \<and> can_resolve (py_env []) cls (PyStr ''/tmp/data'') = Inr True
      \<and> can_resolve (py_env []) cls (PyPath ''/tmp/data'') = Inr True
      \<and> can_resolve (py_env []) cls (PyStr ''https://example.com/x'') = Inr False
      \<and> can_resolve (py_env []) cls (PyStr ''runs:/abc/data'') = Inr False)
   \<and> (\<exists>cls. create_dataset_source_for_artifact_repo (py_env []) [] ''LocalArtifactDatasetSource'' = Inr cls
      \<and> can_resolve (py_env []) cls (PyStr ''/tmp/data'') = Inr True
      \<and> can_resolve (py_env []) cls (PyStr ''https://example.com/x'') = Inr False
      \<and> can_resolve (py_env []) cls (PyStr ''runs:/abc/data'') = Inr False)"
proof -
  let ?env = "py_env []"
  obtain c1 where c1: "create_dataset_source_for_artifact_repo ?env ''file'' ''LocalArtifactDatasetSource'' = Inr c1"
    by (simp add: create_py_env)
  obtain c2 where c2: "create_dataset_source_for_artifact_repo ?env [] ''LocalArtifactDatasetSource'' = Inr c2"
    by (simp add: create_py_env)
  have l: "is_local_uri ?env = spec_is_local_uri" by (simp add: py_env_def)
  have x: "spec_is_local_uri ''/tmp/data'' False = Inr True"
    by (simp add: spec_is_local_uri_def urlparse_examples)
  have a: "can_resolve ?env c1 PyNone = Inr False
      \<and> can_resolve ?env c1 (PyObj (Inr ''/tmp/data'')) = Inr False
      \<and> can_resolve ?env c1 (PyPurePath ''/tmp/data'') = Inr False
      \<and> can_resolve ?env c1 (PyStr ''/tmp/data'') = Inr True
      \<and> can_resolve ?env c1 (PyPath ''/tmp/data'') = Inr True
      \<and> can_resolve ?env c1 (PyStr ''https://example.com/x'') = Inr False
      \<and> can_resolve ?env c1 (PyStr ''runs:/abc/data'') = Inr False"
    using can_resolve_local [OF c1, of "Inr ''/tmp/data''" "''/tmp/data''" "''/tmp/data''"] l x by simp
  have b: "can_resolve ?env c2 (PyStr ''/tmp/data'') = Inr True
      \<and> can_resolve ?env c2 (PyStr ''https://example.com/x'') = Inr False
      \<and> can_resolve ?env c2 (PyStr ''runs:/abc/data'') = Inr False"
    using can_resolve_local [OF c2, of "Inr ''/tmp/data''" "''/tmp/data''" "''/tmp/data''"] l by blast
  from c1 c2 a b show ?thesis by blast
qed

text \<open>
  C3 as stated fails for a path-like value that is not a \<open>pathlib.Path\<close>: the pure
  path \<open>/tmp/data\<close> has a local string form, and the class of \<open>file\<close> rejects
  it, while it accepts the \<open>pathlib.Path\<close> of the same text.
\<close>

theorem can_resolve_path_like_counterexample:
  "create_dataset_source_for_artifact_repo (py_env []) ''file'' ''LocalArtifactDatasetSource''
     = Inr \<lparr>cls_scheme = ''file'', cls_source_type = ''local'',
            cls_dataset_source_name = ''LocalArtifactDatasetSource'',
            cls_name = ''LocalArtifactDatasetSource'',
            cls_doc = Some local_docstring\<rparr>
   \<and> py_str (PyPurePath ''/tmp/data'') = Inr ''/tmp/data''
   \<and> is_local_uri (py_env []) ''/tmp/data'' False = Inr True
   \<and> can_resolve (py_env [])
        \<lparr>cls_scheme = ''file'', cls_source_type = ''local'',
         cls_dataset_source_name = ''LocalArtifactDatasetSource'',
         cls_name = ''LocalArtifactDatasetSource'',
         cls_doc = Some local_docstring\<rparr>
        (PyPurePath ''/tmp/data'') = Inr False
   \<and> can_resolve (py_env [])
        \<lparr>cls_scheme = ''file'', cls_source_type = ''local'',
         cls_dataset_source_name = ''LocalArtifactDatasetSource'',
         cls_name = ''LocalArtifactDatasetSource'',
         cls_doc = Some local_docstring\<rparr>
        (PyPath ''/tmp/data'') = Inr True"
proof -
  let ?cls = "\<lparr>cls_scheme = ''file'', cls_source_type = ''local'',
         cls_dataset_source_name = ''LocalArtifactDatasetSource'',
         cls_name = ''LocalArtifactDatasetSource'',
         cls_doc = Some local_docstring\<rparr>"
  have c: "create_dataset_source_for_artifact_repo (py_env []) ''file''
      ''LocalArtifactDatasetSource'' = Inr ?cls"
    by (simp add: create_py_env)
  have l: "is_local_uri (py_env []) ''/tmp/data'' False = Inr True"
    by (simp add: py_env_def spec_is_local_uri_def urlparse_examples)
  have r: "can_resolve (py_env []) ?cls (PyPurePath ''/tmp/data'') = Inr False"
    by (simp add: can_resolve_def get_source_type_def)
  have p: "can_resolve (py_env []) ?cls (PyPath ''/tmp/data'') = Inr True"
    using l
    by (simp add: can_resolve_def can_resolve_body_def try_except_def library_call_def
          get_source_type_def)
  from c l r p show ?thesis by simp
qed

text \<open>
  C2, where the code departs from it. The class built for the scheme \<open>local\<close> has
  the source type \<open>local\<close>, the one the classes of the empty scheme and of
  \<open>file\<close> have, and \<open>can_resolve\<close> looks at the source type: it treats this class
  as the local one. Its docstring says it is identified by a URI with scheme
  \<open>local\<close>, yet a value that is neither a string nor a path is rejected whatever its
  string form parses to, and a string is accepted exactly when the local test accepts it;
  the URL's scheme is never compared.
\<close>

theorem can_resolve_scheme_local:
  assumes "create_dataset_source_for_artifact_repo env ''local'' nm = Inr cls"
  shows "cls_scheme cls = ''local''
   \<and> cls_doc cls = Some (scheme_docstring ''local'')
   \<and> can_resolve env cls (PyObj r) = Inr False
   \<and> can_resolve env cls (PyStr s) = Inr (is_local_uri env s False = Inr True)"
proof -
  from create_Inr [OF assms] have t: "get_source_type cls = ''local''" and s: "cls_scheme cls = ''local''"
    by (simp_all add: get_source_type_def)
  have d: "cls_doc cls = Some (scheme_docstring ''local'')"
    using create_Inr [OF assms] by simp
  have g: "can_resolve env cls (PyStr s) = Inr (is_local_uri env s False = Inr True)"
    using t
    by (auto simp: can_resolve_def can_resolve_body_def try_except_def library_call_def
          split: sum.splits raised.splits)
  have n: "can_resolve env cls (PyObj r) = Inr False"
    using t by (simp add: can_resolve_def)
  from s d g n show ?thesis by simp
qed

text \<open>
  The theorem for the class of scheme \<open>local\<close>: \<open>local://bucket/key\<close> parses to
  the scheme \<open>local\<close> and is rejected, as a string and as the string form of an
  object, while \<open>/tmp/data\<close> is accepted.
\<close>

theorem can_resolve_scheme_local_witness:
  "\<exists>cls. create_dataset_source_for_artifact_repo (py_env []) ''local'' ''LocalArtifactDatasetSource'' = Inr cls
     \<and> py_urlparse ''local://bucket/key''
         = Inr \<lparr>pr_scheme = ''local'', pr_netloc = ''bucket'', pr_rest = ''/key''\<rparr>
     \<and> can_resolve (py_env []) cls (PyObj (Inr ''local://bucket/key'')) = Inr False
     \<and> can_resolve (py_env []) cls (PyStr ''local://bucket/key'') = Inr False
     \<and> can_resolve (py_env []) cls (PyStr ''/tmp/data'') = Inr True"
proof -
  let ?env = "py_env []"
  obtain c where c: "create_dataset_source_for_artifact_repo ?env ''local'' ''LocalArtifactDatasetSource'' = Inr c"
    by (simp add: create_py_env)
  have x: "is_local_uri ?env ''local://bucket/key'' False = Inr False"
     "is_local_uri ?env ''/tmp/data'' False = Inr True"
    by (simp_all add: py_env_def spec_is_local_uri_def urlparse_examples)
  have a: "can_resolve ?env c (PyObj (Inr ''local://bucket/key'')) = Inr False"
    using can_resolve_scheme_local [OF c] by blast
  have b: "can_resolve ?env c (PyStr ''local://bucket/key'') = Inr False"
    using can_resolve_scheme_local [OF c, of "Inr []" "''local://bucket/key''"] x by simp
  have d: "can_resolve ?env c (PyStr ''/tmp/data'') = Inr True"
    using can_resolve_scheme_local [OF c, of "Inr []" "''/tmp/data''"] x by simp
  from c a b d urlparse_examples(5) show ?thesis by blast
qed
text \<open>
  For every other scheme than the empty one, \<open>file\<close> and \<open>local\<close>, and every
  value on which \<open>isinstance\<close> returns and whose \<open>__str__\<close> raises nothing but
  subclasses of \<open>Exception\<close>: the class accepts the value exactly when its string
  form exists and \<open>urlparse\<close> of it returns the class's scheme, compared as strings;
  any value that has a string form is taken.
\<close>

theorem can_resolve_other_scheme:
  assumes "create_dataset_source_for_artifact_repo env scheme nm = Inr cls"
    and "scheme \<notin> {[], ''file'', ''local''}"
    and "isinstance_str raw_source = Inr is_str"
    and "\<forall>b. py_str raw_source \<noteq> Inl (BaseExc b)"
  shows "can_resolve env cls raw_source =
           Inr (\<exists>s parsed. py_str raw_source = Inr s \<and> urlparse env s = Inr parsed
                  \<and> pr_scheme parsed = scheme)"
proof -
  from create_Inr [OF assms(1)] assms(2)
  have t: "get_source_type cls \<noteq> ''local''" and s: "cls_scheme cls = scheme"
    by (auto simp: get_source_type_def)
  from assms(3) obtain is_path where p: "isinstance_Path raw_source = Inr is_path"
    by (cases raw_source) auto
  show ?thesis
    unfolding can_resolve_tested [OF assms(3) p]
    using t s assms(4)
    by (auto simp: can_resolve_body_def try_except_def library_call_def
          split: sum.splits raised.splits)
qed

text \<open>
  The theorem for the class of \<open>s3\<close>: \<open>s3://bucket/key\<close> is accepted, as a string
  and as the string form of an object, \<open>https://example.com/x\<close> is rejected, and
  \<open>S3://bucket/key\<close> is accepted, since \<open>urlparse\<close> returns schemes in lower
  case.
\<close>

theorem can_resolve_other_scheme_witness:
  "\<exists>cls. create_dataset_source_for_artifact_repo (py_env []) ''s3'' ''S3ArtifactDatasetSource'' = Inr cls
     \<and> can_resolve (py_env []) cls (PyStr ''s3://bucket/key'') = Inr True
     \<and> can_resolve (py_env []) cls (PyStr ''https://example.com/x'') = Inr False
     \<and> can_resolve (py_env []) cls (PyObj (Inr ''s3://bucket/key'')) = Inr True
     \<and> can_resolve (py_env []) cls (PyStr ''S3://bucket/key'') = Inr True"
proof -
  let ?env = "py_env []"
  obtain c where c: "create_dataset_source_for_artifact_repo ?env ''s3'' ''S3ArtifactDatasetSource'' = Inr c"
    by (simp add: create_py_env)
  have h: "''s3'' \<notin> {[], ''file'', ''local''}" by simp
  have u: "urlparse ?env = py_urlparse" by (simp add: py_env_def)
  have i: "isinstance_str (PyStr v) = Inr True" "\<forall>b. py_str (PyStr v) \<noteq> Inl (BaseExc b)" for v
    by simp_all
  have j: "isinstance_str (PyObj (Inr ''s3://bucket/key'')) = Inr False"
     "\<forall>b. py_str (PyObj (Inr ''s3://bucket/key'')) \<noteq> Inl (BaseExc b)"
    by simp_all
  have a: "can_resolve ?env c (PyStr ''s3://bucket/key'') = Inr True"
    using can_resolve_other_scheme [OF c h i] u urlparse_examples(1) by simp
  have b: "can_resolve ?env c (PyStr ''https://example.com/x'') = Inr False"
    using can_resolve_other_scheme [OF c h i] u urlparse_examples(2) by simp
  have d: "can_resolve ?env c (PyObj (Inr ''s3://bucket/key'')) = Inr True"
    using can_resolve_other_scheme [OF c h j] u urlparse_examples(1) by simp
  have e: "can_resolve ?env c (PyStr ''S3://bucket/key'') = Inr True"
    using can_resolve_other_scheme [OF c h i] u urlparse_examples(6) by simp
  from c a b d e show ?thesis by blast
qed


section \<open>Registration\<close>

text \<open>A turn of the loop that skips its entry, one that raises, and one that returns.\<close>

lemma register_entry_skip:
  "scheme \<in> set artifact_schemes_to_exclude \<or> scheme \<in> registered_source_schemes st \<Longrightarrow>
   register_entry env (scheme, artifact_repo) st = (None, st)"
  by (auto simp: register_entry_def)

lemma register_entry_raises:
  "register_entry env entry st = (Some e, st') \<Longrightarrow>
   st' = st \<and> fst entry \<notin> set artifact_schemes_to_exclude
   \<and> fst entry \<notin> registered_source_schemes st
   \<and> derive_dataset_source_name (fst entry) (snd entry) = Inl e"
  by (cases entry) (auto simp: register_entry_def Let_def split: if_splits sum.splits)

lemma register_entry_returns:
  assumes "appends env" and "register_entry env (scheme, artifact_repo) st = (None, st')"
  shows "\<exists>new. sources st' = sources st @ new
     \<and> (new = [] \<or> (\<exists>cls. new = [cls] \<and> cls_scheme cls = scheme
           \<and> scheme \<notin> set artifact_schemes_to_exclude
           \<and> scheme \<notin> registered_source_schemes st
           \<and> scheme \<in> registered_source_schemes st'))
     \<and> registered_source_schemes st \<subseteq> registered_source_schemes st'
     \<and> registered_source_schemes st' \<subseteq>
           registered_source_schemes st \<union> ({scheme} - set artifact_schemes_to_exclude)"
proof (cases "scheme \<in> set artifact_schemes_to_exclude \<or> scheme \<in> registered_source_schemes st")
  case True
  with assms(2) have "st' = st" by (auto simp: register_entry_def)
  then show ?thesis by simp
next
  case False
  with assms(2) obtain nm where nm: "derive_dataset_source_name scheme artifact_repo = Inr nm"
    by (auto simp: register_entry_def split: sum.splits)
  let ?st1 = "st\<lparr>registered_source_schemes := insert scheme (registered_source_schemes st)\<rparr>"
  show ?thesis
  proof (cases "create_dataset_source_for_artifact_repo env scheme nm")
    case (Inl e)
    with False nm assms(2)
    have "st' = ?st1\<lparr>warnings := warnings ?st1 @ [warning_message scheme e]\<rparr>"
      by (simp add: register_entry_def)
    with False show ?thesis by auto
  next
    case (Inr cls)
    note c = create_Inr [OF Inr]
    show ?thesis
    proof (cases "register_dataset_source env cls (sources st)")
      case (Inl e)
      with False nm Inr assms(2)
      have "st' = ?st1\<lparr>warnings := warnings ?st1 @ [warning_message scheme e]\<rparr>"
        by (simp add: register_entry_def)
      with False show ?thesis by auto
    next
      case r: (Inr table)
      with assms(1) have t: "table = sources st @ [cls]" by (simp add: appends_def)
      from False nm Inr r assms(2) have "st' = ?st1\<lparr>sources := table\<rparr>"
        by (simp add: register_entry_def)
      with t c False show ?thesis by auto
    qed
  qed
qed

text \<open>
  What a run of the loop adds to the table when registering appends: classes of
  distinct schemes, all from the directory, none excluded and none claimed before.
\<close>

lemma register_loop_table:
  assumes "appends env"
  shows "\<exists>new. sources (snd (register_loop env repos st)) = sources st @ new
     \<and> distinct (map cls_scheme new)
     \<and> set (map cls_scheme new) \<subseteq>
          fst ` set repos - set artifact_schemes_to_exclude - registered_source_schemes st
     \<and> registered_source_schemes st \<subseteq> registered_source_schemes (snd (register_loop env repos st))
     \<and> registered_source_schemes (snd (register_loop env repos st)) \<subseteq>
          registered_source_schemes st \<union> (fst ` set repos - set artifact_schemes_to_exclude)"
proof (induction repos arbitrary: st)
  case Nil
  then show ?case by simp
next
  case (Cons entry rest)
  obtain scheme artifact_repo where entry: "entry = (scheme, artifact_repo)" by (cases entry)
  obtain err st1 where r: "register_entry env entry st = (err, st1)" by (cases "register_entry env entry st")
  show ?case
  proof (cases err)
    case (Some e)
    with r register_entry_raises [of env entry st e st1] have "st1 = st" by simp
    with r Some show ?thesis by auto
  next
    case None
    with r have loop: "register_loop env (entry # rest) st = register_loop env rest st1" by simp
    from register_entry_returns [OF assms] r None entry
    obtain new1 where n1: "sources st1 = sources st @ new1"
      and c1: "new1 = [] \<or> (\<exists>cls. new1 = [cls] \<and> cls_scheme cls = scheme
           \<and> scheme \<notin> set artifact_schemes_to_exclude
           \<and> scheme \<notin> registered_source_schemes st
           \<and> scheme \<in> registered_source_schemes st1)"
      and s1: "registered_source_schemes st \<subseteq> registered_source_schemes st1"
      and s2: "registered_source_schemes st1 \<subseteq>
           registered_source_schemes st \<union> ({scheme} - set artifact_schemes_to_exclude)"
      by blast
    let ?fin = "snd (register_loop env rest st1)"
    from Cons.IH [of st1]
    obtain new2 where n2: "sources ?fin = sources st1 @ new2"
      and d2: "distinct (map cls_scheme new2)"
      and i2: "set (map cls_scheme new2) \<subseteq>
          fst ` set rest - set artifact_schemes_to_exclude - registered_source_schemes st1"
      and t1: "registered_source_schemes st1 \<subseteq> registered_source_schemes ?fin"
      and t2: "registered_source_schemes ?fin \<subseteq>
          registered_source_schemes st1 \<union> (fst ` set rest - set artifact_schemes_to_exclude)"
      by blast
    have a: "sources ?fin = sources st @ (new1 @ new2)" using n1 n2 by simp
    have b: "distinct (map cls_scheme (new1 @ new2))" using c1 d2 i2 by auto
    have c: "set (map cls_scheme (new1 @ new2)) \<subseteq>
          fst ` set (entry # rest) - set artifact_schemes_to_exclude - registered_source_schemes st"
      using c1 i2 s1 entry by auto
    have d: "registered_source_schemes st \<subseteq> registered_source_schemes ?fin" using s1 t1 by blast
    have e: "registered_source_schemes ?fin \<subseteq>
          registered_source_schemes st \<union> (fst ` set (entry # rest) - set artifact_schemes_to_exclude)"
      using s2 t2 entry by auto
    from a b c d e show ?thesis unfolding loop by blast
  qed
qed

lemma register_loop_filter:
  "register_loop env (filter (\<lambda>entry. fst entry \<notin> set artifact_schemes_to_exclude) repos) st
     = register_loop env repos st"
proof (induction repos arbitrary: st)
  case Nil
  then show ?case by simp
next
  case (Cons entry rest)
  obtain scheme artifact_repo where entry: "entry = (scheme, artifact_repo)" by (cases entry)
  show ?case
  proof (cases "scheme \<in> set artifact_schemes_to_exclude")
    case True
    with entry register_entry_skip [of scheme st env artifact_repo] Cons.IH show ?thesis by simp
  next
    case False
    with entry Cons.IH show ?thesis by (simp split: prod.splits option.splits)
  qed
qed

lemma appends_py_env: "appends (py_env repos)"
  by (simp add: appends_def py_env_def spec_register_dataset_source_def)

text \<open>
  C6. A turn of the loop for a scheme of the exclusion list leaves the state as it is
  and raises nothing: the name is not derived, no class is built, nothing is registered.
  So a run over a directory is the run over the directory without its excluded entries,
  for the loop and for \<open>register_artifact_dataset_sources\<close>; and when registering
  appends to the table, no class that a run adds has a scheme of the list. The list is
  \<open>http\<close>, \<open>https\<close>, \<open>runs\<close>, \<open>models\<close>, \<open>mlflow-artifacts\<close>, \<open>dbfs\<close>.
\<close>

theorem excluded_schemes_skipped:
  "(scheme \<in> set artifact_schemes_to_exclude \<longrightarrow>
      register_entry env (scheme, artifact_repo) st = (None, st))
   \<and> register_loop env repos st =
       register_loop env
         (filter (\<lambda>entry. fst entry \<notin> set artifact_schemes_to_exclude) repos) st
   \<and> register_artifact_dataset_sources env table warned =
       register_artifact_dataset_sources
         (env\<lparr>get_registered_artifact_repositories :=
                filter (\<lambda>entry. fst entry \<notin> set artifact_schemes_to_exclude)
                  (get_registered_artifact_repositories env)\<rparr>) table warned
   \<and> (appends env \<longrightarrow>
        (\<exists>new. fst (snd (register_artifact_dataset_sources env table warned)) = table @ new
           \<and> (\<forall>cls \<in> set new. cls_scheme cls \<notin> set artifact_schemes_to_exclude)))
   \<and> set artifact_schemes_to_exclude =
        {''http'', ''https'', ''runs'', ''models'', ''mlflow-artifacts'', ''dbfs''}"
proof -
  let ?keep = "\<lambda>entry :: string \<times> artifact_repo. fst entry \<notin> set artifact_schemes_to_exclude"
  let ?st0 = "\<lparr>registered_source_schemes = {}, sources = table, warnings = warned\<rparr>"
  have env_indep: "register_entry (env\<lparr>get_registered_artifact_repositories := rs\<rparr>) entry s
      = register_entry env entry s" for rs entry s
  proof -
    have "create_dataset_source_for_artifact_repo
            (env\<lparr>get_registered_artifact_repositories := rs\<rparr>) scheme nm
          = create_dataset_source_for_artifact_repo env scheme nm" for scheme nm
      by (simp add: create_dataset_source_for_artifact_repo_def)
    then show ?thesis
      by (cases entry) (auto simp: register_entry_def Let_def split: sum.splits)
  qed
  have loop_indep: "register_loop (env\<lparr>get_registered_artifact_repositories := rs\<rparr>) xs s
      = register_loop env xs s" for rs xs s
    by (induction xs arbitrary: s) (simp_all add: env_indep split: prod.splits option.splits)
  have a: "register_artifact_dataset_sources env table warned =
       register_artifact_dataset_sources
         (env\<lparr>get_registered_artifact_repositories :=
                filter ?keep (get_registered_artifact_repositories env)\<rparr>) table warned"
    by (simp add: register_artifact_dataset_sources_def loop_indep register_loop_filter)
  have b: "\<exists>new. fst (snd (register_artifact_dataset_sources env table warned)) = table @ new
           \<and> (\<forall>cls \<in> set new. cls_scheme cls \<notin> set artifact_schemes_to_exclude)"
    if ap: "appends env"
  proof -
    from register_loop_table [OF ap, of "get_registered_artifact_repositories env" ?st0]
    obtain new where n: "sources (snd (register_loop env (get_registered_artifact_repositories env) ?st0))
          = table @ new"
      and i: "set (map cls_scheme new) \<subseteq>
          fst ` set (get_registered_artifact_repositories env) - set artifact_schemes_to_exclude
            - registered_source_schemes ?st0"
      by auto
    from n have "fst (snd (register_artifact_dataset_sources env table warned)) = table @ new"
      by (simp add: register_artifact_dataset_sources_def case_prod_beta)
    moreover from i have "\<forall>cls \<in> set new. cls_scheme cls \<notin> set artifact_schemes_to_exclude"
      by auto
    ultimately show ?thesis by blast
  qed
  have c: "set artifact_schemes_to_exclude =
        {''http'', ''https'', ''runs'', ''models'', ''mlflow-artifacts'', ''dbfs''}"
    by (simp add: artifact_schemes_to_exclude_def)
  have d: "scheme \<in> set artifact_schemes_to_exclude \<longrightarrow>
      register_entry env (scheme, artifact_repo) st = (None, st)"
    using register_entry_skip [of scheme st env artifact_repo] by blast
  from a b c d register_loop_filter [of env repos st] show ?thesis by simp
qed

text \<open>
  The theorem for a directory with \<open>http\<close>, \<open>s3\<close>, \<open>dbfs\<close> and \<open>runs\<close>,
  the last with a repository that has no name: the run is the run over \<open>s3\<close> alone.
\<close>

theorem excluded_schemes_skipped_witness:
  "register_entry (py_env [])  (''http'', Named ''HttpArtifactRepository'')
      \<lparr>registered_source_schemes = {}, sources = [], warnings = []\<rparr>
     = (None, \<lparr>registered_source_schemes = {}, sources = [], warnings = []\<rparr>)
   \<and> register_artifact_dataset_sources
        (py_env [(''http'', Named ''HttpArtifactRepository''),
                 (''s3'', Named ''S3ArtifactRepository''),
                 (''dbfs'', Named ''dbfs_artifact_repo_factory''),
                 (''runs'', Unnamed)]) [] []
     = register_artifact_dataset_sources (py_env [(''s3'', Named ''S3ArtifactRepository'')]) [] []
   \<and> map cls_name (fst (snd (register_artifact_dataset_sources
        (py_env [(''http'', Named ''HttpArtifactRepository''),
                 (''s3'', Named ''S3ArtifactRepository''),
                 (''dbfs'', Named ''dbfs_artifact_repo_factory''),
                 (''runs'', Unnamed)]) [] []))) = [''S3ArtifactDatasetSource'']
   \<and> list_all (\<lambda>cls. cls_scheme cls \<notin> set artifact_schemes_to_exclude)
        (fst (snd (register_artifact_dataset_sources
        (py_env [(''http'', Named ''HttpArtifactRepository''),
                 (''s3'', Named ''S3ArtifactRepository''),
                 (''dbfs'', Named ''dbfs_artifact_repo_factory''),
                 (''runs'', Unnamed)]) [] [])))"
proof -
  let ?repos = "[(''http'', Named ''HttpArtifactRepository''),
                 (''s3'', Named ''S3ArtifactRepository''),
                 (''dbfs'', Named ''dbfs_artifact_repo_factory''),
                 (''runs'', Unnamed)]"
  let ?st0 = "\<lparr>registered_source_schemes = {}, sources = [], warnings = []\<rparr>"
  note t = excluded_schemes_skipped [of "''http''" "py_env ?repos" "Named ''HttpArtifactRepository''"
      ?st0 ?repos "[]" "[]"]
  note t0 = excluded_schemes_skipped [of "''http''" "py_env []" "Named ''HttpArtifactRepository''"
      ?st0 "[]" "[]" "[]"]
  have h: "''http'' \<in> set artifact_schemes_to_exclude"
    by (simp add: artifact_schemes_to_exclude_def)
  have f: "(py_env ?repos)\<lparr>get_registered_artifact_repositories :=
                filter (\<lambda>entry. fst entry \<notin> set artifact_schemes_to_exclude)
                  (get_registered_artifact_repositories (py_env ?repos))\<rparr>
           = py_env [(''s3'', Named ''S3ArtifactRepository'')]"
    by (simp add: py_env_def artifact_schemes_to_exclude_def)
  have a: "register_entry (py_env []) (''http'', Named ''HttpArtifactRepository'') ?st0 = (None, ?st0)"
    using t0 h by blast
  have b: "register_artifact_dataset_sources (py_env ?repos) [] []
     = register_artifact_dataset_sources (py_env [(''s3'', Named ''S3ArtifactRepository'')]) [] []"
    using t f by simp
  have c: "map cls_name (fst (snd (register_artifact_dataset_sources
             (py_env [(''s3'', Named ''S3ArtifactRepository'')]) [] []))) = [''S3ArtifactDatasetSource'']"
    by code_simp
  have d: "list_all (\<lambda>cls. cls_scheme cls \<notin> set artifact_schemes_to_exclude)
        (fst (snd (register_artifact_dataset_sources (py_env ?repos) [] [])))"
  proof -
    from t appends_py_env [of ?repos]
    have "\<exists>new. fst (snd (register_artifact_dataset_sources (py_env ?repos) [] [])) = [] @ new
           \<and> (\<forall>cls \<in> set new. cls_scheme cls \<notin> set artifact_schemes_to_exclude)"
      by blast
    then show ?thesis by (auto simp: list_all_iff)
  qed
  from a b c d show ?thesis by simp
qed

text \<open>
  What the \<open>try\<close> of lines 58 to 68 isolates. For a scheme that is neither excluded
  nor claimed and whose name was derived: when building the class raises, or registering
  the class raises, the turn of the loop raises nothing; it claims the scheme, leaves the
  table as it was (a \<open>register_dataset_source\<close> that raises is taken to leave it
  so), and emits the warning
  \<open>Failed to register a dataset source for URIs with scheme\<close>, the scheme in
  quotes, and the exception's text; the loop goes on with the entries that follow. And
  when every repository of a directory has a name, so that no derivation raises, the
  loop and \<open>register_artifact_dataset_sources\<close> raise nothing, whatever building and
  registering do.
\<close>

theorem registration_failure_isolated:
  assumes "scheme \<notin> set artifact_schemes_to_exclude"
    and "scheme \<notin> registered_source_schemes st"
    and "derive_dataset_source_name scheme artifact_repo = Inr nm"
    and "create_dataset_source_for_artifact_repo env scheme nm = Inl e
         \<or> (\<exists>cls. create_dataset_source_for_artifact_repo env scheme nm = Inr cls
               \<and> register_dataset_source env cls (sources st) = Inl e)"
  shows "register_entry env (scheme, artifact_repo) st =
           (None, st\<lparr>registered_source_schemes := insert scheme (registered_source_schemes st),
                      warnings := warnings st @
                        [''Failed to register a dataset source for URIs with scheme ''
                         @ [CHR 0x27] @ scheme @ [CHR 0x27] @ '': '' @ error_str e]\<rparr>)
   \<and> sources (snd (register_entry env (scheme, artifact_repo) st)) = sources st
   \<and> register_loop env ((scheme, artifact_repo) # rest) st =
       register_loop env rest
         (st\<lparr>registered_source_schemes := insert scheme (registered_source_schemes st),
              warnings := warnings st @
                [''Failed to register a dataset source for URIs with scheme ''
                 @ [CHR 0x27] @ scheme @ [CHR 0x27] @ '': '' @ error_str e]\<rparr>)
   \<and> ((\<forall>entry \<in> set repos. \<exists>n. snd entry = Named n) \<longrightarrow>
        fst (register_loop env repos st0) = None
        \<and> fst (register_artifact_dataset_sources
                 (env\<lparr>get_registered_artifact_repositories := repos\<rparr>) table warned) = None)"
proof -
  let ?st' = "st\<lparr>registered_source_schemes := insert scheme (registered_source_schemes st),
                 warnings := warnings st @
                   [''Failed to register a dataset source for URIs with scheme ''
                    @ [CHR 0x27] @ scheme @ [CHR 0x27] @ '': '' @ error_str e]\<rparr>"
  have a: "register_entry env (scheme, artifact_repo) st = (None, ?st')"
    using assms
    by (auto simp: register_entry_def Let_def warning_message_def)
  have named: "fst (register_entry env' entry s) = None" if "\<exists>n. snd entry = Named n"
    for env' entry s
    using that
    by (cases entry)
       (auto simp: register_entry_def Let_def derive_dataset_source_name_def split: sum.splits)
  have loop: "fst (register_loop env' xs s) = None" if "\<forall>entry \<in> set xs. \<exists>n. snd entry = Named n"
    for env' xs s
    using that
  proof (induction xs arbitrary: s)
    case Nil
    then show ?case by simp
  next
    case (Cons x xs)
    then have "fst (register_entry env' x s) = None" using named [of x env' s] by simp
    then obtain s1 where "register_entry env' x s = (None, s1)"
      by (cases "register_entry env' x s") auto
    with Cons show ?case by simp
  qed
  have top: "fst (register_artifact_dataset_sources
                 (env\<lparr>get_registered_artifact_repositories := repos\<rparr>) table warned) = None"
    if "\<forall>entry \<in> set repos. \<exists>n. snd entry = Named n"
    using loop [OF that] by (simp add: register_artifact_dataset_sources_def case_prod_beta)
  from a loop [of repos env st0] top show ?thesis by simp
qed

text \<open>
  The theorem for a directory of three: the decorator raises for \<open>gs\<close>, registering
  raises for \<open>ftp\<close>, and \<open>s3\<close> is registered; two warnings are emitted.
\<close>

theorem registration_failure_isolated_witness:
  "register_artifact_dataset_sources
     (failing_env [(''gs'', Named ''GCSArtifactRepository''),
                   (''ftp'', Named ''FTPArtifactRepository''),
                   (''s3'', Named ''S3ArtifactRepository'')]) [] []
   = (None,
      [\<lparr>cls_scheme = ''s3'', cls_source_type = ''s3'',
        cls_dataset_source_name = ''S3ArtifactDatasetSource'',
        cls_name = ''S3ArtifactDatasetSource'',
        cls_doc = Some (scheme_docstring ''s3'')\<rparr>],
      [''Failed to register a dataset source for URIs with scheme ''
         @ [CHR 0x27] @ ''gs'' @ [CHR 0x27] @ '': decorator failed'',
       ''Failed to register a dataset source for URIs with scheme ''
         @ [CHR 0x27] @ ''ftp'' @ [CHR 0x27] @ '': not accepted''])"
proof -
  let ?repos = "[(''gs'', Named ''GCSArtifactRepository''),
                 (''ftp'', Named ''FTPArtifactRepository''),
                 (''s3'', Named ''S3ArtifactRepository'')]"
  let ?env = "failing_env ?repos"
  let ?st0 = "\<lparr>registered_source_schemes = {}, sources = [], warnings = []\<rparr>"
  let ?w1 = "''Failed to register a dataset source for URIs with scheme ''
         @ [CHR 0x27] @ ''gs'' @ [CHR 0x27] @ '': decorator failed''"
  let ?w2 = "''Failed to register a dataset source for URIs with scheme ''
         @ [CHR 0x27] @ ''ftp'' @ [CHR 0x27] @ '': not accepted''"
  let ?st1 = "\<lparr>registered_source_schemes = {''gs''}, sources = [], warnings = [?w1]\<rparr>"
  let ?st2 = "\<lparr>registered_source_schemes = {''ftp'', ''gs''}, sources = [], warnings = [?w1, ?w2]\<rparr>"
  have x: "''gs'' \<notin> set artifact_schemes_to_exclude" "''ftp'' \<notin> set artifact_schemes_to_exclude"
    by (simp_all add: artifact_schemes_to_exclude_def)
  have d1: "derive_dataset_source_name ''gs'' (Named ''GCSArtifactRepository'')
      = Inr ''GCSArtifactDatasetSource''"
    by (simp add: derive_dataset_source_name_def)
  have d2: "derive_dataset_source_name ''ftp'' (Named ''FTPArtifactRepository'')
      = Inr ''FTPArtifactDatasetSource''"
    by (simp add: derive_dataset_source_name_def)
  have c1: "create_dataset_source_for_artifact_repo ?env ''gs'' ''GCSArtifactDatasetSource''
      = Inl (PyException ''decorator failed'')"
    by (simp add: create_dataset_source_for_artifact_repo_def failing_env_def py_env_def)
  have c2: "\<exists>cls. create_dataset_source_for_artifact_repo ?env ''ftp'' ''FTPArtifactDatasetSource'' = Inr cls
      \<and> register_dataset_source ?env cls (sources ?st1) = Inl (ValueError ''not accepted'')"
    by (simp add: create_dataset_source_for_artifact_repo_def failing_env_def py_env_def)
  have s1: "register_loop ?env ?repos ?st0 = register_loop ?env (tl ?repos) ?st1"
    using registration_failure_isolated [of "''gs''" ?st0 "Named ''GCSArtifactRepository''"
        "''GCSArtifactDatasetSource''" ?env "PyException ''decorator failed''" "tl ?repos"]
      x d1 c1
    by simp
  have s2: "register_loop ?env (tl ?repos) ?st1 = register_loop ?env (tl (tl ?repos)) ?st2"
    using registration_failure_isolated [of "''ftp''" ?st1 "Named ''FTPArtifactRepository''"
        "''FTPArtifactDatasetSource''" ?env "ValueError ''not accepted''" "tl (tl ?repos)"]
      x d2 c2
    by simp
  have s3: "register_loop ?env (tl (tl ?repos)) ?st2 =
      (None, \<lparr>registered_source_schemes = {''s3'', ''ftp'', ''gs''},
              sources = [\<lparr>cls_scheme = ''s3'', cls_source_type = ''s3'',
                 cls_dataset_source_name = ''S3ArtifactDatasetSource'',
                 cls_name = ''S3ArtifactDatasetSource'',
                 cls_doc = Some (scheme_docstring ''s3'')\<rparr>],
              warnings = [?w1, ?w2]\<rparr>)"
    by (simp add: register_entry_def artifact_schemes_to_exclude_def
          derive_dataset_source_name_def create_dataset_source_for_artifact_repo_def
          failing_env_def py_env_def)
  have g: "get_registered_artifact_repositories ?env = ?repos"
    by (simp add: failing_env_def py_env_def)
  show ?thesis
    unfolding register_artifact_dataset_sources_def g s1 s2 s3 by simp
qed

text \<open>
  C1, where the code departs from it. The name is derived at lines 38 to 56, before the
  \<open>try\<close> of line 58 that guards the building and the registering of the class. For a
  scheme that is neither excluded nor claimed, an exception of the derivation is not
  turned into a warning: it leaves the turn of the loop, the loop, and
  \<open>register_artifact_dataset_sources\<close>, with the table and the warnings as they were,
  and the entries that follow are not visited.
\<close>

theorem derivation_failure_propagates:
  assumes "scheme \<notin> set artifact_schemes_to_exclude"
    and "scheme \<notin> registered_source_schemes st"
    and "derive_dataset_source_name scheme artifact_repo = Inl e"
  shows "register_entry env (scheme, artifact_repo) st = (Some e, st)
   \<and> register_loop env ((scheme, artifact_repo) # rest) st = (Some e, st)
   \<and> register_artifact_dataset_sources
        (env\<lparr>get_registered_artifact_repositories := (scheme, artifact_repo) # rest\<rparr>)
        table warned = (Some e, table, warned)"
proof -
  have a: "register_entry env' (scheme, artifact_repo) s = (Some e, s)"
    if "scheme \<notin> registered_source_schemes s" for env' s
    using assms(1,3) that by (simp add: register_entry_def)
  have b: "register_loop env' ((scheme, artifact_repo) # rest) s = (Some e, s)"
    if "scheme \<notin> registered_source_schemes s" for env' s
    using a [OF that] by simp
  have c: "register_artifact_dataset_sources
        (env\<lparr>get_registered_artifact_repositories := (scheme, artifact_repo) # rest\<rparr>)
        table warned = (Some e, table, warned)"
    unfolding register_artifact_dataset_sources_def
    by (simp add: b del: register_loop.simps)
  from a [OF assms(2)] b [OF assms(2)] c show ?thesis by simp
qed

text \<open>
  The theorem for a directory whose first repository has no \<open>__name__\<close>: the
  \<open>AttributeError\<close> leaves \<open>register_artifact_dataset_sources\<close>, no warning is
  emitted, and nothing is registered for \<open>s3\<close>, which follows.
\<close>

theorem derivation_failure_propagates_witness:
  "register_artifact_dataset_sources
     (py_env [(''ftp'', Unnamed), (''s3'', Named ''S3ArtifactRepository'')]) [] []
   = (Some (AttributeError ''__name__''), [], [])"
proof -
  let ?st = "\<lparr>registered_source_schemes = {}, sources = [], warnings = []\<rparr>"
  have x: "''ftp'' \<notin> set artifact_schemes_to_exclude"
    by (simp add: artifact_schemes_to_exclude_def)
  have r: "''ftp'' \<notin> registered_source_schemes ?st" by simp
  have d: "derive_dataset_source_name ''ftp'' Unnamed = Inl (AttributeError ''__name__'')"
    by (simp add: derive_dataset_source_name_def)
  have e: "(py_env [])\<lparr>get_registered_artifact_repositories :=
              (''ftp'', Unnamed) # [(''s3'', Named ''S3ArtifactRepository'')]\<rparr>
           = py_env [(''ftp'', Unnamed), (''s3'', Named ''S3ArtifactRepository'')]"
    by (simp add: py_env_def)
  from derivation_failure_propagates [OF x r d, of "py_env []"
      "[(''s3'', Named ''S3ArtifactRepository'')]" "[]" "[]"] e
  show ?thesis by simp
qed

text \<open>The directory the loop runs over is the one it is given, not the environment's.\<close>

lemma register_entry_directory:
  "register_entry (env\<lparr>get_registered_artifact_repositories := repos\<rparr>) entry st
     = register_entry env entry st"
proof -
  have "create_dataset_source_for_artifact_repo
          (env\<lparr>get_registered_artifact_repositories := repos\<rparr>) scheme nm
        = create_dataset_source_for_artifact_repo env scheme nm" for scheme nm
    by (simp add: create_dataset_source_for_artifact_repo_def)
  then show ?thesis
    by (cases entry) (auto simp: register_entry_def Let_def split: sum.splits)
qed

lemma register_loop_directory:
  "register_loop (env\<lparr>get_registered_artifact_repositories := repos\<rparr>) xs st
     = register_loop env xs st"
  by (induction xs arbitrary: st)
     (simp_all add: register_entry_directory split: prod.splits option.splits)

text \<open>
  C8, as amended. Within one pass a scheme is registered at most once: a turn of the
  loop for a scheme already claimed leaves the state as it is; a turn for a scheme that
  is not excluded and whose name was derived claims the scheme, whether or not the
  registration succeeds; and when registering appends to the table, the classes that a
  pass adds have distinct schemes, none of them claimed before the pass. The set of
  claimed schemes belongs to the pass and starts empty, and the table is not looked at:
  a pass over a directory of one eligible scheme hands the class to
  \<open>register_dataset_source\<close> with the table as it finds it, whatever the table holds,
  and ends with the table that is returned, or with a warning when that raises.
\<close>

theorem scheme_registered_once_per_pass:
  "(scheme \<in> registered_source_schemes st \<longrightarrow>
      register_entry env (scheme, artifact_repo) st = (None, st))
   \<and> (scheme \<notin> set artifact_schemes_to_exclude
        \<and> derive_dataset_source_name scheme artifact_repo = Inr nm \<longrightarrow>
        scheme \<in> registered_source_schemes (snd (register_entry env (scheme, artifact_repo) st)))
   \<and> (appends env \<longrightarrow>
        (\<exists>new. sources (snd (register_loop env repos st)) = sources st @ new
           \<and> distinct (map cls_scheme new)
           \<and> (\<forall>cls \<in> set new. cls_scheme cls \<notin> registered_source_schemes st)))
   \<and> (appends env \<longrightarrow>
        (\<exists>new. fst (snd (register_artifact_dataset_sources env table warned)) = table @ new
           \<and> distinct (map cls_scheme new)))
   \<and> (scheme \<notin> set artifact_schemes_to_exclude
        \<and> derive_dataset_source_name scheme artifact_repo = Inr nm
        \<and> create_dataset_source_for_artifact_repo env scheme nm = Inr built \<longrightarrow>
        register_artifact_dataset_sources
          (env\<lparr>get_registered_artifact_repositories := [(scheme, artifact_repo)]\<rparr>) table warned
        = (case register_dataset_source env built table of
             Inr table' \<Rightarrow> (None, table', warned)
           | Inl e \<Rightarrow> (None, table, warned @ [warning_message scheme e])))"
proof -
  let ?st0 = "\<lparr>registered_source_schemes = {}, sources = table, warnings = warned\<rparr>"
  have a: "scheme \<in> registered_source_schemes st \<longrightarrow>
      register_entry env (scheme, artifact_repo) st = (None, st)"
    using register_entry_skip [of scheme st env artifact_repo] by blast
  have b: "scheme \<in> registered_source_schemes (snd (register_entry env (scheme, artifact_repo) st))"
    if "scheme \<notin> set artifact_schemes_to_exclude"
      and "derive_dataset_source_name scheme artifact_repo = Inr nm"
    using that by (auto simp: register_entry_def Let_def split: sum.splits)
  have c: "\<exists>new. sources (snd (register_loop env xs s)) = sources s @ new
           \<and> distinct (map cls_scheme new)
           \<and> (\<forall>cls \<in> set new. cls_scheme cls \<notin> registered_source_schemes s)"
    if ap: "appends env" for xs s
  proof -
    from register_loop_table [OF ap, of xs s]
    obtain new where "sources (snd (register_loop env xs s)) = sources s @ new"
      and "distinct (map cls_scheme new)"
      and "set (map cls_scheme new) \<subseteq>
          fst ` set xs - set artifact_schemes_to_exclude - registered_source_schemes s"
      by blast
    then show ?thesis by auto
  qed
  have d: "\<exists>new. fst (snd (register_artifact_dataset_sources env table warned)) = table @ new
           \<and> distinct (map cls_scheme new)"
    if ap: "appends env"
    using c [OF ap, of "get_registered_artifact_repositories env" ?st0]
    by (auto simp: register_artifact_dataset_sources_def case_prod_beta)
  have e: "register_artifact_dataset_sources
          (env\<lparr>get_registered_artifact_repositories := [(scheme, artifact_repo)]\<rparr>) table warned
        = (case register_dataset_source env built table of
             Inr table' \<Rightarrow> (None, table', warned)
           | Inl e \<Rightarrow> (None, table, warned @ [warning_message scheme e]))"
    if "scheme \<notin> set artifact_schemes_to_exclude"
      and "derive_dataset_source_name scheme artifact_repo = Inr nm"
      and "create_dataset_source_for_artifact_repo env scheme nm = Inr built"
  proof -
    have "register_entry env (scheme, artifact_repo) ?st0
        = (case register_dataset_source env built table of
             Inr table' \<Rightarrow>
               (None, \<lparr>registered_source_schemes = {scheme}, sources = table',
                       warnings = warned\<rparr>)
           | Inl e \<Rightarrow>
               (None, \<lparr>registered_source_schemes = {scheme}, sources = table,
                       warnings = warned @ [warning_message scheme e]\<rparr>))"
      using that by (simp add: register_entry_def Let_def split: sum.splits)
    then have "register_loop env [(scheme, artifact_repo)] ?st0
        = (case register_dataset_source env built table of
             Inr table' \<Rightarrow>
               (None, \<lparr>registered_source_schemes = {scheme}, sources = table',
                       warnings = warned\<rparr>)
           | Inl e \<Rightarrow>
               (None, \<lparr>registered_source_schemes = {scheme}, sources = table,
                       warnings = warned @ [warning_message scheme e]\<rparr>))"
      by (simp split: sum.splits)
    moreover have "register_artifact_dataset_sources
          (env\<lparr>get_registered_artifact_repositories := [(scheme, artifact_repo)]\<rparr>) table warned
        = (case register_loop env [(scheme, artifact_repo)] ?st0 of
             (err, st) \<Rightarrow> (err, sources st, warnings st))"
      by (simp add: register_artifact_dataset_sources_def register_loop_directory
            del: register_loop.simps)
    ultimately show ?thesis by (simp split: sum.splits)
  qed
  from a b c [of repos st] d e show ?thesis by blast
qed

text \<open>
  The theorem for a directory that lists \<open>s3\<close> twice: one class is registered, the
  one of the first entry.
\<close>

theorem scheme_registered_once_per_pass_witness:
  "map cls_name (fst (snd (register_artifact_dataset_sources
       (py_env [(''s3'', Named ''S3ArtifactRepository''),
                (''s3'', Named ''OtherArtifactRepository'')]) [] [])))
     = [''S3ArtifactDatasetSource'']
   \<and> distinct (map cls_scheme (fst (snd (register_artifact_dataset_sources
       (py_env [(''s3'', Named ''S3ArtifactRepository''),
                (''s3'', Named ''OtherArtifactRepository'')]) [] []))))
   \<and> register_entry (py_env []) (''s3'', Named ''OtherArtifactRepository'')
        \<lparr>registered_source_schemes = {''s3''}, sources = [], warnings = []\<rparr>
      = (None, \<lparr>registered_source_schemes = {''s3''}, sources = [], warnings = []\<rparr>)"
proof -
  let ?repos = "[(''s3'', Named ''S3ArtifactRepository''),
                (''s3'', Named ''OtherArtifactRepository'')]"
  let ?st = "\<lparr>registered_source_schemes = {''s3''}, sources = [], warnings = []\<rparr>"
  note t = scheme_registered_once_per_pass [of "''s3''" ?st "py_env []"
      "Named ''OtherArtifactRepository''" "[]" "[]" "[]" "[]"]
  note u = scheme_registered_once_per_pass [of "''s3''" ?st "py_env ?repos"
      "Named ''OtherArtifactRepository''" "[]" "[]" "[]" "[]"]
  have a: "map cls_name (fst (snd (register_artifact_dataset_sources (py_env ?repos) [] [])))
     = [''S3ArtifactDatasetSource'']"
    by code_simp
  have b: "distinct (map cls_scheme (fst (snd (register_artifact_dataset_sources (py_env ?repos) [] []))))"
  proof -
    from u appends_py_env [of ?repos]
    have "\<exists>new. fst (snd (register_artifact_dataset_sources (py_env ?repos) [] [])) = [] @ new
           \<and> distinct (map cls_scheme new)"
      by blast
    then show ?thesis by auto
  qed
  have c: "register_entry (py_env []) (''s3'', Named ''OtherArtifactRepository'') ?st = (None, ?st)"
  proof -
    have "''s3'' \<in> registered_source_schemes ?st" by simp
    with t show ?thesis by blast
  qed
  from a b c show ?thesis by simp
qed

text \<open>
  C8 as stated fails for two passes: the second call starts with an empty set of claimed
  schemes and is given no other, so it registers \<open>s3\<close> again. When
  \<open>register_dataset_source\<close> appends whatever the table holds, the table ends with two
  classes for \<open>s3\<close>, of the same name; when it refuses a name the table holds, the
  second pass emits the warning of a failed registration for \<open>s3\<close>, where the first
  emitted none.
\<close>

theorem two_passes_counterexample:
  "map cls_name
     (fst (snd (register_artifact_dataset_sources
        (appending_env [(''s3'', Named ''S3ArtifactRepository'')])
        (fst (snd (register_artifact_dataset_sources
           (appending_env [(''s3'', Named ''S3ArtifactRepository'')]) [] [])))
        (snd (snd (register_artifact_dataset_sources
           (appending_env [(''s3'', Named ''S3ArtifactRepository'')]) [] []))))))
     = [''S3ArtifactDatasetSource'', ''S3ArtifactDatasetSource'']
   \<and> map cls_scheme
     (fst (snd (register_artifact_dataset_sources
        (appending_env [(''s3'', Named ''S3ArtifactRepository'')])
        (fst (snd (register_artifact_dataset_sources
           (appending_env [(''s3'', Named ''S3ArtifactRepository'')]) [] [])))
        (snd (snd (register_artifact_dataset_sources
           (appending_env [(''s3'', Named ''S3ArtifactRepository'')]) [] []))))))
     = [''s3'', ''s3'']
   \<and> snd (snd (register_artifact_dataset_sources
        (py_env [(''s3'', Named ''S3ArtifactRepository'')])
        (fst (snd (register_artifact_dataset_sources
           (py_env [(''s3'', Named ''S3ArtifactRepository'')]) [] [])))
        (snd (snd (register_artifact_dataset_sources
           (py_env [(''s3'', Named ''S3ArtifactRepository'')]) [] [])))))
     = [''Failed to register a dataset source for URIs with scheme '' @ [CHR 0x27] @ ''s3''
        @ [CHR 0x27] @ '': name collision: S3ArtifactDatasetSource'']
   \<and> snd (snd (register_artifact_dataset_sources
           (py_env [(''s3'', Named ''S3ArtifactRepository'')]) [] []))
     = []"
  by code_simp

end
